theory Spec2Isabelle
  imports Main
begin

section \<open>JavaScript values exchanged over the transport\<close>

text \<open>
  A connection is named by its \<^verbatim>\<open>socket.id\<close>, a string. Payloads are JSON-like values.
  Two kinds of function value occur: \<open>JAck s n\<close> is the acknowledgement function the
  transport hands to an event handler for packet \<open>n\<close> of connection \<open>s\<close> (calling it
  sends the acknowledgement back over \<open>s\<close>), and \<open>JFun n\<close> is any other function, such as
  a callback supplied by the application. \<open>JError m\<close> is an \<^verbatim>\<open>Error\<close> object with
  message \<open>m\<close>. Numbers are opaque payload here: no arithmetic is ever done on them by
  the relay or the driver.
\<close>

type_synonym sock = string

datatype jsval =
    JUndefined
  | JNull
  | JBool bool
  | JNum int
  | JStr string
  | JArr "jsval list"
  | JObj "(string \<times> jsval) list"
  | JError string
  | JAck sock nat
  | JFun nat

datatype error = TypeError | UnhandledError

text \<open>The \<open>i\<close>-th actual argument of a call; a missing argument is \<^verbatim>\<open>undefined\<close>.\<close>

definition arg :: "jsval list \<Rightarrow> nat \<Rightarrow> jsval" where
  "arg as i = (if i < length as then as ! i else JUndefined)"

text \<open>
  Property read \<^verbatim>\<open>v.k\<close>, used by the source for the keys \<^verbatim>\<open>fn\<close>, \<^verbatim>\<open>args\<close> and
  \<^verbatim>\<open>idx\<close> only (no built-in prototype defines them): reading a property of
  \<^verbatim>\<open>undefined\<close> or \<^verbatim>\<open>null\<close> throws, an object yields the last binding of the key,
  every other value yields \<^verbatim>\<open>undefined\<close>.
\<close>

fun get_prop :: "jsval \<Rightarrow> string \<Rightarrow> error + jsval" where
  "get_prop JUndefined k = Inl TypeError"
| "get_prop JNull k = Inl TypeError"
| "get_prop (JObj kvs) k = Inr (case map_of (rev kvs) k of None \<Rightarrow> JUndefined | Some v \<Rightarrow> v)"
| "get_prop v k = Inr JUndefined"

section \<open>The relay server (broker)\<close>

text \<open>
  The relay keeps one module-level variable, \<^verbatim>\<open>snippetSocket\<close>, which is
  \<^verbatim>\<open>undefined\<close> or \<^verbatim>\<open>null\<close> (both falsy, here \<open>None\<close>) or the socket of the
  registered Design Snippets server. What a handler does to the outside world is a list
  of effects: a log record (level, message, format arguments), an event emitted to a
  connection together with an acknowledgement callback (registered by the transport
  under a fresh packet id), a call of a transport acknowledgement function, or a call
  of some other function. \<^verbatim>\<open>emit\<close> sends the named event with its arguments to the
  peer of the connection, and the peer's acknowledgement calls the callback, once;
  the names the transport keeps for the socket's own events are the exception, see
  \<open>emit_to\<close> below.
\<close>

datatype level = LInfo | LWarn | LError | LVerbose

datatype effect =
    Log level string "jsval list"
  | Emit sock jsval "jsval list" nat
  | SendAck sock nat "jsval list"
  | CallFun nat "jsval list"

text \<open>
  The two callbacks the relay passes to \<^verbatim>\<open>emit\<close>: the answer to \<^verbatim>\<open>getType\<close>, closed
  over the new socket, and the relay of a result, closed over \<^verbatim>\<open>clientCB\<close>.
\<close>

datatype closure = GetTypeCb sock | RelayCb jsval

text \<open>
  Besides the variable, the state holds what the transport keeps for the relay: the
  callbacks awaiting an acknowledgement, keyed by connection and packet id (newest
  first), and the counter the packet ids are drawn from.
\<close>

record broker =
  snippetSocket :: "sock option"
  acks :: "((sock \<times> nat) \<times> closure) list"
  ids :: nat

definition init :: broker where
  "init = \<lparr>snippetSocket = None, acks = [], ids = 0\<rparr>"

definition forget :: "sock \<times> nat \<Rightarrow> ((sock \<times> nat) \<times> closure) list \<Rightarrow> ((sock \<times> nat) \<times> closure) list" where
  "forget k xs = filter (\<lambda>p. fst p \<noteq> k) xs"

text \<open>
  What reaches the relay: a new connection, the acknowledgement of packet \<open>n\<close> by the
  peer of a connection (with the acknowledgement's arguments), the end of a connection,
  and an \<^verbatim>\<open>action\<close> event from a connection (with the event's arguments, the
  acknowledgement function last when the sender asked for one).
\<close>

datatype event =
    Connect sock
  | Ack sock nat "jsval list"
  | Disconnect sock
  | Action sock "jsval list"

text \<open>\<^verbatim>\<open>io.on("connect", ...)\<close>: log, then ask the new connection for its type.\<close>

definition on_connect :: "sock \<Rightarrow> broker \<Rightarrow> effect list \<times> (error + broker)" where
  "on_connect socket b =
     ([Log LInfo (''connection from '' @ socket) [],
       Emit socket (JStr ''getType'') [] (ids b)],
      Inr (b\<lparr>acks := ((socket, ids b), GetTypeCb socket) # acks b, ids := ids b + 1\<rparr>))"

text \<open>The callback of \<^verbatim>\<open>getType\<close>: only the answer \<^verbatim>\<open>"server"\<close> is acted upon.\<close>

definition getType_cb :: "sock \<Rightarrow> jsval \<Rightarrow> broker \<Rightarrow> effect list \<times> (error + broker)" where
  "getType_cb socket type b =
     (if type = JStr ''server'' then
        (case snippetSocket b of
           None \<Rightarrow>
             ([Log LInfo (''Design Snippets Server found. id: '' @ socket) []],
              Inr (b\<lparr>snippetSocket := Some socket\<rparr>))
         | Some other \<Rightarrow>
             ([Log LError ''Server already connected. Disconnect other server first'' []],
              Inr b))
      else ([], Inr b))"

text \<open>Calling a value: only functions can be called. A transport acknowledgement
  function sends its arguments back on its connection.\<close>

fun call_fn :: "jsval \<Rightarrow> jsval list \<Rightarrow> error + effect list" where
  "call_fn (JAck c n) as = Inr [SendAck c n as]"
| "call_fn (JFun n) as = Inr [CallFun n as]"
| "call_fn v as = Inl TypeError"

text \<open>The callback given to the server's \<^verbatim>\<open>emit\<close>: log, then \<^verbatim>\<open>clientCB(result)\<close>.\<close>

definition relay_cb :: "jsval \<Rightarrow> jsval \<Rightarrow> broker \<Rightarrow> effect list \<times> (error + broker)" where
  "relay_cb clientCB result b =
     (case call_fn clientCB [result] of
        Inl e \<Rightarrow> ([Log LVerbose ''Relayed action returned %j'' [result]], Inl e)
      | Inr out \<Rightarrow> (Log LVerbose ''Relayed action returned %j'' [result] # out, Inr b))"

text \<open>
  An acknowledgement packet runs the callback registered under its id for that
  connection, once: the transport forgets the callback when it calls it, and ignores an
  acknowledgement it has no callback for. Each callback takes the first argument.
\<close>

definition on_ack :: "sock \<Rightarrow> nat \<Rightarrow> jsval list \<Rightarrow> broker \<Rightarrow> effect list \<times> (error + broker)" where
  "on_ack s n as b =
     (case map_of (acks b) (s, n) of
        None \<Rightarrow> ([], Inr b)
      | Some (GetTypeCb socket) \<Rightarrow>
          getType_cb socket (arg as 0) (b\<lparr>acks := forget (s, n) (acks b)\<rparr>)
      | Some (RelayCb clientCB) \<Rightarrow>
          relay_cb clientCB (arg as 0) (b\<lparr>acks := forget (s, n) (acks b)\<rparr>))"

text \<open>\<^verbatim>\<open>socket.on("disconnect", ...)\<close>.\<close>

definition on_disconnect :: "sock \<Rightarrow> broker \<Rightarrow> effect list \<times> (error + broker)" where
  "on_disconnect socket b =
     (if snippetSocket b = Some socket then
        ([Log LWarn ''Snippet server disconnected'' [],
          Log LInfo (''disconnect: '' @ socket) []],
         Inr (b\<lparr>snippetSocket := None\<rparr>))
      else ([Log LInfo (''disconnect: '' @ socket) []], Inr b))"

text \<open>
  \<^verbatim>\<open>snippetSocket.emit(name, args, cb)\<close> with a name chosen by the caller. The
  transport keeps six names for the events of the socket object itself; \<^verbatim>\<open>emit\<close>
  with one of them sends nothing and registers no callback, it calls the listeners
  that the socket object has for that name. The relay has put one listener on the
  socket, for \<^verbatim>\<open>disconnect\<close>, so that name runs the relay's own disconnect handler
  for the server's socket; \<^verbatim>\<open>error\<close> has no listener, and an \<^verbatim>\<open>error\<close> event
  without a listener throws; the other four names have no listener and do nothing.
\<close>

definition reserved :: "jsval \<Rightarrow> bool" where
  "reserved name =
     (name \<in> set (map JStr [''error'', ''connect'', ''disconnect'', ''disconnecting'',
                             ''newListener'', ''removeListener'']))"

definition emit_to :: "sock \<Rightarrow> jsval \<Rightarrow> jsval \<Rightarrow> closure \<Rightarrow> broker \<Rightarrow> effect list \<times> (error + broker)" where
  "emit_to server name a cb b =
     (if name = JStr ''error'' then ([], Inl UnhandledError)
      else if name = JStr ''disconnect'' then on_disconnect server b
      else if reserved name then ([], Inr b)
      else ([Emit server name [a] (ids b)],
            Inr (b\<lparr>acks := ((server, ids b), cb) # acks b, ids := ids b + 1\<rparr>)))"

text \<open>\<^verbatim>\<open>socket.on("action", function(data, clientCB) ...)\<close>.\<close>

definition on_action :: "sock \<Rightarrow> jsval list \<Rightarrow> broker \<Rightarrow> effect list \<times> (error + broker)" where
  \<open>on_action socket as b =
     (let data = arg as 0; clientCB = arg as 1 in
      case snippetSocket b of
        Some server \<Rightarrow>
          (case get_prop data ''fn'' of
             Inl e \<Rightarrow> ([], Inl e)
           | Inr fn \<Rightarrow>
               (case get_prop data ''args'' of
                  Inl e \<Rightarrow> ([], Inl e)
                | Inr args \<Rightarrow>
                    (case emit_to server fn args (RelayCb clientCB) b of
                       (out, r) \<Rightarrow>
                         (Log LVerbose ''Relaying action "%s". Args: %j.'' [fn, args] # out, r))))
      | None \<Rightarrow>
          ([Log LWarn ''Unable to process action. No snippet server connected'' []], Inr b))\<close>

fun step :: "event \<Rightarrow> broker \<Rightarrow> effect list \<times> (error + broker)" where
  "step (Connect s) b = on_connect s b"
| "step (Ack s n as) b = on_ack s n as b"
| "step (Disconnect s) b = on_disconnect s b"
| "step (Action s as) b = on_action s as b"

text \<open>A handler that throws ends the run: the exception is not caught anywhere.\<close>

fun run :: "event list \<Rightarrow> broker \<Rightarrow> effect list \<times> (error + broker)" where
  "run [] b = ([], Inr b)"
| "run (e # es) b =
     (case step e b of
        (out, Inl err) \<Rightarrow> (out, Inl err)
      | (out, Inr b') \<Rightarrow> (case run es b' of (out', r) \<Rightarrow> (out @ out', r)))"


section \<open>The client driver\<close>

text \<open>
  The driver module keeps its connection in the module-level variable \<^verbatim>\<open>socket\<close>;
  socket objects and driver instances live in a store and are referred to by their
  index (a reference is created by \<^verbatim>\<open>sio\<close> and by \<^verbatim>\<open>new\<close> only, so it is always in
  range). The world also records what the driver does: the messages handed to
  \<^verbatim>\<open>socket.emit\<close> (socket, event name, payload, and the callback when the caller gave
  one), the lines written with \<^verbatim>\<open>console.log\<close> (a template literal is kept as its
  pieces), and the calls of callbacks.
\<close>

datatype outcome = Fulfilled jsval | Rejected jsval | Pending

datatype tpart = S string | V jsval

datatype handler =
    OnConnect nat
  | OnGetType
  | OnDisconnect nat
  | OnSingleSample nat
  | OnSamplerComplete nat
  | OnNoServer nat
  | OnServerOk nat

record sockobj =
  url :: string
  handlers :: "(string \<times> handler) list"
  closed :: bool

record dsdriver =
  addr :: string
  sampleCallback :: jsval
  connectCallback :: jsval
  sampleFinalCallback :: jsval
  connected :: bool
  snippetServerOnline :: bool

record world =
  socket :: "nat option"
  sockets :: "sockobj list"
  drivers :: "dsdriver list"
  sent :: "(nat \<times> string \<times> jsval \<times> jsval option) list"
  console :: "tpart list list"
  called :: "(jsval \<times> jsval list) list"

definition world0 :: world where
  "world0 = \<lparr>socket = None, sockets = [], drivers = [], sent = [], console = [], called = []\<rparr>"

definition console_log :: "tpart list \<Rightarrow> world \<Rightarrow> world" where
  "console_log l w = w\<lparr>console := console w @ [l]\<rparr>"

fun typeof :: "jsval \<Rightarrow> string" where
  "typeof JUndefined = ''undefined''"
| "typeof (JBool b) = ''boolean''"
| "typeof (JNum n) = ''number''"
| "typeof (JStr s) = ''string''"
| "typeof (JAck c n) = ''function''"
| "typeof (JFun n) = ''function''"
| "typeof v = ''object''"

fun truthy :: "jsval \<Rightarrow> bool" where
  "truthy JUndefined = False"
| "truthy JNull = False"
| "truthy (JBool b) = b"
| "truthy (JNum n) = (n \<noteq> 0)"
| "truthy (JStr s) = (s \<noteq> [])"
| "truthy v = True"

text \<open>A default parameter value applies when the argument is \<^verbatim>\<open>undefined\<close>.\<close>

definition dflt :: "jsval \<Rightarrow> jsval \<Rightarrow> jsval" where
  "dflt v d = (if v = JUndefined then d else v)"

subsection \<open>The correlated call primitive\<close>

text \<open>
  \<^verbatim>\<open>socket.emitAsync\<close> is the promisified \<^verbatim>\<open>socket.emit\<close>: it sends the message and
  returns a promise. How that promise settles is decided outside the driver (by the
  transport and the peer), so it is a parameter: \<open>T n\<close> is the fate of the promise of
  the \<open>n\<close>-th message sent, \<open>Pending\<close> when it never settles.
\<close>

type_synonym transport = "nat \<Rightarrow> outcome"

definition emitAsync :: "transport \<Rightarrow> nat \<Rightarrow> string \<Rightarrow> jsval \<Rightarrow> world \<Rightarrow> outcome \<times> world" where
  "emitAsync T h ev payload w =
     (T (length (sent w)), w\<lparr>sent := sent w @ [(h, ev, payload, None)]\<rparr>)"

text \<open>
  What decides the promise in the running system: \<^verbatim>\<open>emitAsync\<close> is
  \<^verbatim>\<open>Promise.promisify(socket.emit)\<close>, so the callback it passes to \<^verbatim>\<open>emit\<close> as the
  acknowledgement function is a node-style callback: its first argument is the error,
  its second the value. An acknowledgement whose first argument is truthy rejects the
  promise with it (wrapped in an error object when it is primitive, which is not
  modelled: \<^verbatim>\<open>exec\<close> only logs it); otherwise the promise is fulfilled with the
  second argument. \<open>A n\<close> is the argument list the \<open>n\<close>-th message is acknowledged
  with, \<open>None\<close> when it never is.
\<close>

definition nodeback :: "jsval list \<Rightarrow> outcome" where
  "nodeback as = (if truthy (arg as 0) then Rejected (arg as 0) else Fulfilled (arg as 1))"

definition promisified :: "(nat \<Rightarrow> jsval list option) \<Rightarrow> transport" where
  "promisified A n = (case A n of None \<Rightarrow> Pending | Some as \<Rightarrow> nodeback as)"

text \<open>
  \<^verbatim>\<open>exec\<close>: the \<^verbatim>\<open>try\<close> block covers the whole call, so a rejected promise, and
  also the TypeError of reading \<^verbatim>\<open>emitAsync\<close> from an unset \<^verbatim>\<open>socket\<close>, end in the
  \<^verbatim>\<open>catch\<close>, which logs and falls off the end of the function.
\<close>

definition exec :: "transport \<Rightarrow> jsval \<Rightarrow> jsval \<Rightarrow> world \<Rightarrow> outcome \<times> world" where
  "exec T fn args w =
     (case socket w of
        None \<Rightarrow> (Fulfilled JUndefined, console_log [S ''Error: '', V (JError ''TypeError'')] w)
      | Some h \<Rightarrow>
          (case emitAsync T h ''action'' (JObj [(''fn'', fn), (''args'', args)]) w of
             (Fulfilled res, w') \<Rightarrow> (Fulfilled res, w')
           | (Rejected e, w') \<Rightarrow> (Fulfilled JUndefined, console_log [S ''Error: '', V e] w')
           | (Pending, w') \<Rightarrow> (Pending, w')))"

definition execCb :: "jsval \<Rightarrow> jsval \<Rightarrow> jsval \<Rightarrow> world \<Rightarrow> error + world" where
  "execCb fn args cb w =
     (case socket w of
        None \<Rightarrow> Inl TypeError
      | Some h \<Rightarrow>
          Inr (w\<lparr>sent := sent w @ [(h, ''action'', JObj [(''fn'', fn), (''args'', args)], Some cb)]\<rparr>))"

subsection \<open>The convenience methods\<close>

text \<open>
  Every method is an \<^verbatim>\<open>async\<close> function: a \<^verbatim>\<open>throw\<close> in its body rejects the promise
  it returns. \<open>await_then\<close> is \<^verbatim>\<open>const res = await p; ...\<close> outside any \<^verbatim>\<open>try\<close>.
\<close>

definition missing_name :: jsval where
  "missing_name = JError ''Missing Snippet Name''"

definition await_then :: "outcome \<times> world \<Rightarrow> (jsval \<Rightarrow> world \<Rightarrow> outcome \<times> world) \<Rightarrow> outcome \<times> world" where
  "await_then p k =
     (case p of
        (Fulfilled res, w) \<Rightarrow> k res w
      | (Rejected e, w) \<Rightarrow> (Rejected e, w)
      | (Pending, w) \<Rightarrow> (Pending, w))"

definition return_js :: "jsval \<Rightarrow> world \<Rightarrow> outcome \<times> world" where
  "return_js res w = (Fulfilled res, w)"

definition addSnippet :: "transport \<Rightarrow> jsval \<Rightarrow> world \<Rightarrow> outcome \<times> world" where
  "addSnippet T name w =
     await_then (exec T (JStr ''add snippet'') (JObj [(''name'', name)]) w) return_js"

definition deleteSnippet :: "transport \<Rightarrow> jsval \<Rightarrow> world \<Rightarrow> outcome \<times> world" where
  "deleteSnippet T name w =
     await_then (exec T (JStr ''delete snippet'') (JObj [(''name'', name)]) w) return_js"

definition listSnippets :: "transport \<Rightarrow> world \<Rightarrow> outcome \<times> world" where
  "listSnippets T w = await_then (exec T (JStr ''list snippets'') (JObj []) w) return_js"

definition setData :: "transport \<Rightarrow> jsval \<Rightarrow> jsval \<Rightarrow> world \<Rightarrow> outcome \<times> world" where
  "setData T name data w =
     (if typeof name \<noteq> ''string'' then (Rejected missing_name, w)
      else await_then
             (exec T (JStr ''snippet set data'') (JObj [(''name'', name), (''data'', data)]) w)
             return_js)"

definition addData :: "transport \<Rightarrow> jsval \<Rightarrow> jsval \<Rightarrow> jsval \<Rightarrow> world \<Rightarrow> outcome \<times> world" where
  "addData T name x y w =
     (if typeof name \<noteq> ''string'' then (Rejected missing_name, w)
      else await_then
             (exec T (JStr ''snippet add data'') (JObj [(''name'', name), (''x'', x), (''y'', y)]) w)
             return_js)"

definition removeData :: "transport \<Rightarrow> jsval \<Rightarrow> jsval \<Rightarrow> world \<Rightarrow> outcome \<times> world" where
  "removeData T name index w =
     (if typeof name \<noteq> ''string'' then (Rejected missing_name, w)
      else await_then
             (exec T (JStr ''snippet remove data'') (JObj [(''name'', name), (''index'', index)]) w)
             return_js)"

definition train :: "transport \<Rightarrow> jsval \<Rightarrow> world \<Rightarrow> outcome \<times> world" where
  "train T name w =
     (if typeof name \<noteq> ''string'' then (Rejected missing_name, w)
      else await_then (exec T (JStr ''snippet train'') (JObj [(''name'', name)]) w) return_js)"

definition showLoss :: "transport \<Rightarrow> jsval \<Rightarrow> world \<Rightarrow> outcome \<times> world" where
  "showLoss T name w =
     (if typeof name \<noteq> ''string'' then (Rejected missing_name, w)
      else await_then (exec T (JStr ''snippet plotLastLoss'') (JObj [(''name'', name)]) w) return_js)"

definition plot1D ::
  "transport \<Rightarrow> jsval \<Rightarrow> jsval \<Rightarrow> jsval \<Rightarrow> jsval \<Rightarrow> jsval \<Rightarrow> jsval \<Rightarrow> world \<Rightarrow> outcome \<times> world" where
  "plot1D T name x dim rmin0 rmax0 n0 w =
     (let rmin = dflt rmin0 (JNum 0); rmax = dflt rmax0 (JNum 1); n = dflt n0 (JNum 100) in
      if typeof name \<noteq> ''string'' then (Rejected missing_name, w)
      else await_then
             (exec T (JStr ''snippet plot1D'')
                (JObj [(''name'', name), (''x'', x), (''dim'', dim), (''rmin'', rmin),
                       (''rmax'', rmax), (''n'', n)]) w)
             return_js)"

definition predictOne :: "transport \<Rightarrow> jsval \<Rightarrow> jsval \<Rightarrow> world \<Rightarrow> outcome \<times> world" where
  "predictOne T name x w =
     (if typeof name \<noteq> ''string'' then (Rejected missing_name, w)
      else await_then
             (exec T (JStr ''snippet predict one'') (JObj [(''name'', name), (''data'', x)]) w)
             return_js)"

definition predict :: "transport \<Rightarrow> jsval \<Rightarrow> jsval \<Rightarrow> world \<Rightarrow> outcome \<times> world" where
  "predict T name data w =
     (if typeof name \<noteq> ''string'' then (Rejected missing_name, w)
      else await_then
             (exec T (JStr ''snippet predict'') (JObj [(''name'', name), (''data'', data)]) w)
             return_js)"

definition sample :: "transport \<Rightarrow> jsval \<Rightarrow> jsval \<Rightarrow> world \<Rightarrow> outcome \<times> world" where
  "sample T name params w =
     (if typeof name \<noteq> ''string'' then (Rejected missing_name, w)
      else await_then
             (exec T (JStr ''snippet sample'') (JObj [(''name'', name), (''data'', params)]) w)
             return_js)"

definition setProp :: "transport \<Rightarrow> jsval \<Rightarrow> jsval \<Rightarrow> jsval \<Rightarrow> world \<Rightarrow> outcome \<times> world" where
  "setProp T name propName val w =
     (if typeof name \<noteq> ''string'' then (Rejected missing_name, w)
      else await_then
             (exec T (JStr ''snippet setProp'')
                (JObj [(''name'', name), (''propName'', propName), (''val'', val)]) w)
             return_js)"

definition getProp :: "transport \<Rightarrow> jsval \<Rightarrow> jsval \<Rightarrow> world \<Rightarrow> outcome \<times> world" where
  "getProp T name propName w =
     (if typeof name \<noteq> ''string'' then (Rejected missing_name, w)
      else await_then
             (exec T (JStr ''snippet getProp'') (JObj [(''name'', name), (''propName'', propName)]) w)
             return_js)"

definition loadGPR :: "transport \<Rightarrow> jsval \<Rightarrow> jsval \<Rightarrow> jsval \<Rightarrow> world \<Rightarrow> outcome \<times> world" where
  "loadGPR T name trainData kernelData w =
     (if typeof name \<noteq> ''string'' then (Rejected missing_name, w)
      else await_then (setData T name trainData w)
             (\<lambda>_ w'. await_then
                        (exec T (JStr ''snippet load gpr'')
                           (JObj [(''name'', name), (''kernelData'', kernelData)]) w')
                        return_js))"

definition stopSampler :: "transport \<Rightarrow> world \<Rightarrow> outcome \<times> world" where
  "stopSampler T w = await_then (exec T (JStr ''stop sampler'') JUndefined w) return_js"

definition samplerRunning :: "transport \<Rightarrow> world \<Rightarrow> outcome \<times> world" where
  "samplerRunning T w = await_then (exec T (JStr ''sampler running'') JUndefined w) return_js"

definition reset :: "transport \<Rightarrow> world \<Rightarrow> outcome \<times> world" where
  "reset T w =
     await_then (exec T (JStr ''reset'') JUndefined w)
       (\<lambda>_ w'. (Fulfilled JUndefined, console_log [S ''Server reset performed''] w'))"

text \<open>One call of the typed layer, with its actual arguments.\<close>

datatype call =
    AddSnippet jsval
  | DeleteSnippet jsval
  | ListSnippets
  | SetData jsval jsval
  | AddData jsval jsval jsval
  | RemoveData jsval jsval
  | Train jsval
  | ShowLoss jsval
  | Plot1D jsval jsval jsval jsval jsval jsval
  | PredictOne jsval jsval
  | Predict jsval jsval
  | Sample jsval jsval
  | SetProp jsval jsval jsval
  | GetProp jsval jsval
  | LoadGPR jsval jsval jsval
  | StopSampler
  | SamplerRunning
  | Reset

fun invoke :: "transport \<Rightarrow> call \<Rightarrow> world \<Rightarrow> outcome \<times> world" where
  "invoke T (AddSnippet name) w = addSnippet T name w"
| "invoke T (DeleteSnippet name) w = deleteSnippet T name w"
| "invoke T ListSnippets w = listSnippets T w"
| "invoke T (SetData name data) w = setData T name data w"
| "invoke T (AddData name x y) w = addData T name x y w"
| "invoke T (RemoveData name index) w = removeData T name index w"
| "invoke T (Train name) w = train T name w"
| "invoke T (ShowLoss name) w = showLoss T name w"
| "invoke T (Plot1D name x dim rmin rmax n) w = plot1D T name x dim rmin rmax n w"
| "invoke T (PredictOne name x) w = predictOne T name x w"
| "invoke T (Predict name data) w = predict T name data w"
| "invoke T (Sample name params) w = sample T name params w"
| "invoke T (SetProp name propName val) w = setProp T name propName val w"
| "invoke T (GetProp name propName) w = getProp T name propName w"
| "invoke T (LoadGPR name trainData kernelData) w = loadGPR T name trainData kernelData w"
| "invoke T StopSampler w = stopSampler T w"
| "invoke T SamplerRunning w = samplerRunning T w"
| "invoke T Reset w = reset T w"

subsection \<open>Construction, event handlers and disconnection\<close>

text \<open>Decimal digits of a port number, for the template literal of the address.\<close>

fun string_of_nat :: "nat \<Rightarrow> string" where
  "string_of_nat n =
     (if n < 10 then [''0123456789'' ! n]
      else string_of_nat (n div 10) @ [''0123456789'' ! (n mod 10)])"

declare string_of_nat.simps [simp del]

text \<open>\<^verbatim>\<open>sio(addr)\<close> makes a new socket object.\<close>

definition sio :: "string \<Rightarrow> world \<Rightarrow> nat \<times> world" where
  "sio a w = (length (sockets w), w\<lparr>sockets := sockets w @ [\<lparr>url = a, handlers = [], closed = False\<rparr>]\<rparr>)"

text \<open>\<^verbatim>\<open>socket.on(ev, f)\<close> and \<^verbatim>\<open>socket.close()\<close>, on the module-level variable.\<close>

definition socket_on :: "string \<Rightarrow> handler \<Rightarrow> world \<Rightarrow> error + world" where
  "socket_on ev f w =
     (case socket w of
        None \<Rightarrow> Inl TypeError
      | Some h \<Rightarrow>
          Inr (w\<lparr>sockets := (sockets w)
                  [h := (sockets w ! h)\<lparr>handlers := handlers (sockets w ! h) @ [(ev, f)]\<rparr>]\<rparr>))"

definition socket_close :: "world \<Rightarrow> error + world" where
  "socket_close w =
     (case socket w of
        None \<Rightarrow> Inl TypeError
      | Some h \<Rightarrow> Inr (w\<lparr>sockets := (sockets w)[h := (sockets w ! h)\<lparr>closed := True\<rparr>]\<rparr>))"

definition bind_err :: "error + world \<Rightarrow> (world \<Rightarrow> error + world) \<Rightarrow> error + world" where
  "bind_err r k = (case r of Inl e \<Rightarrow> Inl e | Inr w \<Rightarrow> k w)"

definition bind :: "nat \<Rightarrow> world \<Rightarrow> error + world" where
  "bind self w =
     bind_err (socket_on ''connect'' (OnConnect self) w) (\<lambda>w.
     bind_err (socket_on ''getType'' OnGetType w) (\<lambda>w.
     bind_err (socket_on ''disconnect'' (OnDisconnect self) w) (\<lambda>w.
     bind_err (socket_on ''single sample'' (OnSingleSample self) w) (\<lambda>w.
     bind_err (socket_on ''sampler complete'' (OnSamplerComplete self) w) (\<lambda>w.
     bind_err (socket_on ''no server'' (OnNoServer self) w) (\<lambda>w.
     socket_on ''server ok'' (OnServerOk self) w))))))"

text \<open>
  The constructor; \<open>None\<close> is the omitted port argument. It returns the reference of
  the new instance.
\<close>

definition new_DsDriver :: "nat option \<Rightarrow> world \<Rightarrow> error + nat \<times> world" where
  "new_DsDriver port0 w =
     (let port = (case port0 of None \<Rightarrow> 5234 | Some p \<Rightarrow> p);
          a = ''http://localhost:'' @ string_of_nat port;
          this = length (drivers w);
          (h, w1) = sio a w;
          w2 = w1\<lparr>socket := Some h\<rparr>;
          w3 = w2\<lparr>drivers := drivers w2 @
                 [\<lparr>addr = a, sampleCallback = JNull, connectCallback = JNull,
                   sampleFinalCallback = JNull, connected = False,
                   snippetServerOnline = False\<rparr>]\<rparr>
      in case bind this w3 of Inl e \<Rightarrow> Inl e | Inr w4 \<Rightarrow> Inr (this, w4))"

text \<open>Calling a value on the driver's side: the call is recorded.\<close>

definition call_cb :: "jsval \<Rightarrow> jsval list \<Rightarrow> world \<Rightarrow> error + world" where
  "call_cb f as w =
     (if typeof f = ''function'' then Inr (w\<lparr>called := called w @ [(f, as)]\<rparr>)
      else Inl TypeError)"

definition upd_driver :: "nat \<Rightarrow> (dsdriver \<Rightarrow> dsdriver) \<Rightarrow> world \<Rightarrow> world" where
  "upd_driver d f w = w\<lparr>drivers := (drivers w)[d := f (drivers w ! d)]\<rparr>"

text \<open>\<^verbatim>\<open>if (self.connectCallback) self.connectCallback(self.connected, self.snippetServerOnline)\<close>.\<close>

definition notify :: "nat \<Rightarrow> world \<Rightarrow> error + world" where
  "notify self w =
     (let d = drivers w ! self in
      if truthy (connectCallback d)
      then call_cb (connectCallback d) [JBool (connected d), JBool (snippetServerOnline d)] w
      else Inr w)"

definition sampleReturned :: "nat \<Rightarrow> jsval \<Rightarrow> jsval \<Rightarrow> world \<Rightarrow> error + world" where
  "sampleReturned this data snippetName w =
     (case get_prop data ''idx'' of
        Inl e \<Rightarrow> Inl e
      | Inr idx \<Rightarrow>
          (let w1 = console_log [S ''Received sample for snippet '', V snippetName,
                                 S '' with id '', V idx] w;
               cb = sampleCallback (drivers w1 ! this)
           in if truthy cb then call_cb cb [data, snippetName] w1 else Inr w1))"

definition samplerComplete :: "nat \<Rightarrow> jsval \<Rightarrow> jsval \<Rightarrow> world \<Rightarrow> error + world" where
  "samplerComplete this data snippetName w =
     (let w1 = console_log [S ''Received final snippet data from '', V snippetName] w;
          cb = sampleFinalCallback (drivers w1 ! this)
      in if truthy cb then call_cb cb [data, snippetName] w1 else Inr w1)"

text \<open>The bodies of the handlers that \<^verbatim>\<open>bind\<close> registers.\<close>

fun run_handler :: "handler \<Rightarrow> jsval list \<Rightarrow> world \<Rightarrow> error + world" where
  "run_handler (OnConnect self) as w =
     notify self
       (upd_driver self (\<lambda>d. d\<lparr>connected := True\<rparr>)
          (console_log [S ''Snippets Node Driver connected to '', S (addr (drivers w ! self))] w))"
| "run_handler OnGetType as w = call_cb (arg as 0) [JStr ''client''] w"
| "run_handler (OnDisconnect self) as w =
     notify self
       (upd_driver self (\<lambda>d. d\<lparr>connected := False, snippetServerOnline := False\<rparr>)
          (console_log [S ''Snippets Node Driver disconnected from '', S (addr (drivers w ! self))] w))"
| "run_handler (OnSingleSample self) as w = sampleReturned self (arg as 0) (arg as 1) w"
| "run_handler (OnSamplerComplete self) as w = samplerComplete self (arg as 0) (arg as 1) w"
| "run_handler (OnNoServer self) as w =
     notify self
       (upd_driver self (\<lambda>d. d\<lparr>snippetServerOnline := False\<rparr>)
          (console_log [S ''No server connected. Unable to use snippet functions.''] w))"
| "run_handler (OnServerOk self) as w =
     notify self
       (upd_driver self (\<lambda>d. d\<lparr>snippetServerOnline := True\<rparr>)
          (console_log [S ''Snippet server online''] w))"

text \<open>An event arriving on socket \<open>h\<close> runs the handlers registered for its name, in order.\<close>

fun run_handlers :: "handler list \<Rightarrow> jsval list \<Rightarrow> world \<Rightarrow> error + world" where
  "run_handlers [] as w = Inr w"
| "run_handlers (f # fs) as w =
     (case run_handler f as w of Inl e \<Rightarrow> Inl e | Inr w' \<Rightarrow> run_handlers fs as w')"

definition receive :: "nat \<Rightarrow> string \<Rightarrow> jsval list \<Rightarrow> world \<Rightarrow> error + world" where
  "receive h ev as w =
     run_handlers (map snd (filter (\<lambda>p. fst p = ev) (handlers (sockets w ! h)))) as w"

text \<open>The method \<^verbatim>\<open>disconnect()\<close> of instance \<open>this\<close>.\<close>

definition disconnect :: "nat \<Rightarrow> world \<Rightarrow> error + world" where
  "disconnect this w =
     (case socket_close w of
        Inl e \<Rightarrow> Inl e
      | Inr w1 \<Rightarrow>
          notify this (upd_driver this (\<lambda>d. d\<lparr>connected := False, snippetServerOnline := False\<rparr>) w1))"

section \<open>Notions used to state the properties\<close>

text \<open>The connection that holds the server (worker) role is the one in \<^verbatim>\<open>snippetSocket\<close>.\<close>

definition holds_worker :: "broker \<Rightarrow> sock \<Rightarrow> bool" where
  "holds_worker b c = (snippetSocket b = Some c)"

text \<open>
  The log lines of a registration and of a release, and the number of registered
  servers according to the variable.
\<close>

fun attach_log :: "effect \<Rightarrow> bool" where
  "attach_log (Log LInfo m as) =
     (take (length ''Design Snippets Server found. id: '') m = ''Design Snippets Server found. id: '')"
| "attach_log e = False"

definition detach_log :: "effect \<Rightarrow> bool" where
  "detach_log e = (e = Log LWarn ''Snippet server disconnected'' [])"

definition occupied :: "broker \<Rightarrow> nat" where
  "occupied b = (if snippetSocket b = None then 0 else 1)"

text \<open>An effect that delivers something to a client's pending call.\<close>

fun is_delivery :: "effect \<Rightarrow> bool" where
  "is_delivery (SendAck c n as) = True"
| "is_delivery e = False"

text \<open>An event sent to a connection.\<close>

fun is_emit :: "effect \<Rightarrow> bool" where
  "is_emit (Emit s name as n) = True"
| "is_emit e = False"

text \<open>
  A call of client \<open>c\<close>: an \<^verbatim>\<open>action\<close> event with its payload and the acknowledgement
  function of packet \<open>snd p\<close>. A payload can be relayed when its \<^verbatim>\<open>fn\<close> can be read and
  is not one of the names the transport keeps for itself. \<open>relayed\<close> is what the server
  is sent for the \<open>i\<close>-th call: the event named by \<^verbatim>\<open>fn\<close> with the one argument
  \<^verbatim>\<open>args\<close>, as packet \<open>base + i\<close>.
\<close>

definition call_ev :: "sock \<Rightarrow> jsval \<times> nat \<Rightarrow> event" where
  "call_ev c p = Action c [fst p, JAck c (snd p)]"

definition relayable :: "jsval \<Rightarrow> bool" where
  "relayable d = (case get_prop d ''fn'' of Inl e \<Rightarrow> False | Inr fn \<Rightarrow> \<not> reserved fn)"

definition field_of :: "jsval \<Rightarrow> string \<Rightarrow> jsval" where
  "field_of d k = (case get_prop d k of Inl e \<Rightarrow> JUndefined | Inr v \<Rightarrow> v)"

definition relayed :: "sock \<Rightarrow> nat \<Rightarrow> (jsval \<times> nat) list \<Rightarrow> nat \<Rightarrow> effect" where
  "relayed srv base calls i =
     Emit srv (field_of (fst (calls ! i)) ''fn'') [field_of (fst (calls ! i)) ''args''] (base + i)"

text \<open>
  The server answers the events it was sent: its reply to an emitted event
  acknowledges the packet of that event, with one value. \<open>replies out reply order\<close>
  are the acknowledgements of the events emitted in \<open>out\<close>, the \<open>i\<close>-th of them
  answered with \<open>reply i\<close>, arriving in the order \<open>order\<close>. \<open>reply_ev\<close> is such an
  acknowledgement with the packet number written out.
\<close>

fun reply_to :: "effect \<Rightarrow> jsval \<Rightarrow> event list" where
  "reply_to (Emit s name as n) v = [Ack s n [v]]"
| "reply_to e v = []"

definition replies :: "effect list \<Rightarrow> (nat \<Rightarrow> jsval) \<Rightarrow> nat list \<Rightarrow> event list" where
  "replies out reply order =
     concat (map (\<lambda>i. if i < length (filter is_emit out)
                       then reply_to (filter is_emit out ! i) (reply i) else []) order)"

definition reply_ev :: "sock \<Rightarrow> nat \<Rightarrow> (nat \<Rightarrow> jsval) \<Rightarrow> nat \<Rightarrow> event" where
  "reply_ev srv base reply i = Ack srv (base + i) [reply i]"

definition delivery :: "sock \<Rightarrow> (jsval \<times> nat) list \<Rightarrow> (nat \<Rightarrow> jsval) \<Rightarrow> nat \<Rightarrow> effect" where
  "delivery c calls reply i = SendAck c (snd (calls ! i)) [reply i]"

text \<open>
  The arguments with which the relay acknowledged packet \<open>n\<close> of client \<open>c\<close>, read off
  the relay's effects: this is what the client's transport hands to the callback of
  that message.
\<close>

fun acks_from :: "effect list \<Rightarrow> sock \<Rightarrow> nat \<Rightarrow> jsval list option" where
  "acks_from [] c n = None"
| "acks_from (SendAck c' n' as # es) c n =
     (if c' = c \<and> n' = n then Some as else acks_from es c n)"
| "acks_from (e # es) c n = acks_from es c n"

text \<open>Two transports: one fulfils every promise with \<open>v\<close>, one rejects every promise with \<open>e\<close>.\<close>

definition answering :: "jsval \<Rightarrow> transport" where
  "answering v n = Fulfilled v"


text \<open>
  The methods whose body starts with the check \<^verbatim>\<open>typeof name !== 'string'\<close>, and the
  \<^verbatim>\<open>name\<close> argument of a call.
\<close>

fun checks_name :: "call \<Rightarrow> bool" where
  "checks_name (AddSnippet name) = False"
| "checks_name (DeleteSnippet name) = False"
| "checks_name ListSnippets = False"
| "checks_name StopSampler = False"
| "checks_name SamplerRunning = False"
| "checks_name Reset = False"
| "checks_name c = True"

fun name_of :: "call \<Rightarrow> jsval" where
  "name_of (AddSnippet name) = name"
| "name_of (DeleteSnippet name) = name"
| "name_of (SetData name data) = name"
| "name_of (AddData name x y) = name"
| "name_of (RemoveData name index) = name"
| "name_of (Train name) = name"
| "name_of (ShowLoss name) = name"
| "name_of (Plot1D name x dim rmin rmax n) = name"
| "name_of (PredictOne name x) = name"
| "name_of (Predict name data) = name"
| "name_of (Sample name params) = name"
| "name_of (SetProp name propName val) = name"
| "name_of (GetProp name propName) = name"
| "name_of (LoadGPR name trainData kernelData) = name"
| "name_of c = JUndefined"


text \<open>The messages sent between two worlds.\<close>

definition new_sent :: "world \<Rightarrow> world \<Rightarrow> (nat \<times> string \<times> jsval \<times> jsval option) list" where
  "new_sent w w' = drop (length (sent w)) (sent w')"

text \<open>The envelope of \<^verbatim>\<open>train("foo")\<close>.\<close>

definition train_foo :: jsval where
  "train_foo = JObj [(''fn'', JStr ''snippet train''), (''args'', JObj [(''name'', JStr ''foo'')])]"

text \<open>
  Worlds for the scenarios: after one driver was constructed with the default port, and
  after a second one was constructed for port 6000. A relay state with the server
  \<^verbatim>\<open>w\<close> registered and nothing pending.
\<close>

definition world1 :: world where
  "world1 = (case new_DsDriver None world0 of Inr (d, w) \<Rightarrow> w | Inl e \<Rightarrow> world0)"

definition world2 :: world where
  "world2 = (case new_DsDriver (Some 6000) world1 of Inr (d, w) \<Rightarrow> w | Inl e \<Rightarrow> world1)"

definition serving :: broker where
  "serving = \<lparr>snippetSocket = Some ''w'', acks = [], ids = 2\<rparr>"

text \<open>
  Two calls of one client, \<^verbatim>\<open>listSnippets()\<close> and \<^verbatim>\<open>train("foo")\<close>, and the values
  the server answers them with.
\<close>

definition list_call :: jsval where
  "list_call = JObj [(''fn'', JStr ''list snippets''), (''args'', JObj [])]"

definition names :: jsval where
  "names = JArr [JStr ''foo'']"

definition kernel :: jsval where
  "kernel = JObj [(''lengthscale'', JNum 1)]"

definition two_replies :: "nat \<Rightarrow> jsval" where
  "two_replies i = (if i = 0 then names else kernel)"

section \<open>Auxiliary facts\<close>

lemmas method_defs =
  addSnippet_def deleteSnippet_def listSnippets_def setData_def addData_def removeData_def
  train_def showLoss_def plot1D_def predictOne_def predict_def sample_def setProp_def
  getProp_def loadGPR_def stopSampler_def samplerRunning_def reset_def

lemmas handler_defs =
  on_connect_def on_ack_def getType_cb_def relay_cb_def on_disconnect_def on_action_def
  emit_to_def

lemma run_append:
  "run (xs @ ys) b =
     (case run xs b of
        (out, Inl err) \<Rightarrow> (out, Inl err)
      | (out, Inr b') \<Rightarrow> (case run ys b' of (out', r) \<Rightarrow> (out @ out', r)))"
  by (induction xs arbitrary: b) (auto split: prod.splits sum.splits)

lemma map_of_forget:
  "map_of (forget k xs) k' = (if k' = k then None else map_of xs k')"
  by (induction xs) (auto simp: forget_def)

lemma get_prop_total: "get_prop d k = Inr v \<Longrightarrow> \<exists>v'. get_prop d k' = Inr v'"
  by (cases d) auto

lemma step_keeps_worker:
  "step ev b = (out, Inr b') \<Longrightarrow> snippetSocket b = Some w \<Longrightarrow>
     snippetSocket b' = Some w \<or>
     (snippetSocket b' = None \<and>
      (ev = Disconnect w \<or>
       (\<exists>c xs. ev = Action c xs \<and> get_prop (arg xs 0) ''fn'' = Inr (JStr ''disconnect''))))"
  by (cases ev)
     (auto simp: handler_defs Let_def
           split: option.splits closure.splits if_splits sum.splits)

lemma call_fn_no_emit: "call_fn f xs = Inr out \<Longrightarrow> Emit t nm as k \<notin> set out"
  by (cases f) auto

lemma step_emits:
  "Emit t nm as k \<in> set (fst (step ev b)) \<Longrightarrow>
     (ev = Connect t \<and> nm = JStr ''getType'') \<or>
     (snippetSocket b = Some t \<and> (\<exists>s xs. ev = Action s xs \<and> get_prop (arg xs 0) ''fn'' = Inr nm))"
  by (cases ev)
     (auto simp: handler_defs Let_def dest: call_fn_no_emit
           split: option.splits closure.splits if_splits sum.splits)

lemma emit_to_sends:
  "\<not> reserved name \<Longrightarrow>
     emit_to server name a cb b =
       ([Emit server name [a] (ids b)],
        Inr (b\<lparr>acks := ((server, ids b), cb) # acks b, ids := ids b + 1\<rparr>))"
  by (auto simp: emit_to_def reserved_def)

lemma step_call:
  assumes "snippetSocket b = Some srv" "relayable (fst p)"
  shows \<open>step (call_ev c p) b =
           ([Log LVerbose ''Relaying action "%s". Args: %j.''
               [field_of (fst p) ''fn'', field_of (fst p) ''args''],
             Emit srv (field_of (fst p) ''fn'') [field_of (fst p) ''args''] (ids b)],
            Inr (b\<lparr>acks := ((srv, ids b), RelayCb (JAck c (snd p))) # acks b,
                    ids := ids b + 1\<rparr>))\<close>
proof -
  from assms(2) obtain f where f: "get_prop (fst p) ''fn'' = Inr f" and nr: "\<not> reserved f"
    by (auto simp: relayable_def split: sum.splits)
  from get_prop_total [OF f] obtain a where a: "get_prop (fst p) ''args'' = Inr a" by blast
  show ?thesis using assms(1) f a emit_to_sends [OF nr]
    by (simp add: call_ev_def on_action_def arg_def field_of_def)
qed

lemma calls_registered:
  assumes "snippetSocket b = Some srv"
      and "\<forall>p \<in> set calls. relayable (fst p)"
  shows "\<exists>out b1. run (map (call_ev c) calls) b = (out, Inr b1) \<and>
           filter is_delivery out = [] \<and>
           filter is_emit out = map (relayed srv (ids b) calls) [0..<length calls] \<and>
           snippetSocket b1 = Some srv \<and> ids b1 = ids b + length calls \<and>
           (\<forall>i < length calls.
              map_of (acks b1) (srv, ids b + i) = Some (RelayCb (JAck c (snd (calls ! i)))))"
  using assms
proof (induction calls rule: rev_induct)
  case Nil
  then show ?case by simp
next
  case (snoc p ps)
  then obtain out b1 where r: "run (map (call_ev c) ps) b = (out, Inr b1)"
    and d: "filter is_delivery out = []"
    and e: "filter is_emit out = map (relayed srv (ids b) ps) [0..<length ps]"
    and s: "snippetSocket b1 = Some srv" and n: "ids b1 = ids b + length ps"
    and m: "\<forall>i < length ps. map_of (acks b1) (srv, ids b + i) = Some (RelayCb (JAck c (snd (ps ! i))))"
    by auto
  from snoc.prems have "relayable (fst p)" by auto
  note st = step_call [OF s this, of c]
  let ?b2 = "b1\<lparr>acks := ((srv, ids b1), RelayCb (JAck c (snd p))) # acks b1, ids := ids b1 + 1\<rparr>"
  let ?out' = \<open>[Log LVerbose ''Relaying action "%s". Args: %j.''
                  [field_of (fst p) ''fn'', field_of (fst p) ''args''],
                Emit srv (field_of (fst p) ''fn'') [field_of (fst p) ''args''] (ids b1)]\<close>
  have run2: "run (map (call_ev c) (ps @ [p])) b = (out @ ?out', Inr ?b2)"
    using r st by (simp add: run_append)
  have m2: "\<forall>i < length (ps @ [p]).
      map_of (acks ?b2) (srv, ids b + i) = Some (RelayCb (JAck c (snd ((ps @ [p]) ! i))))"
    using m n by (auto simp: nth_append less_Suc_eq)
  have "map (relayed srv (ids b) ps) [0..<length ps]
          = map (relayed srv (ids b) (ps @ [p])) [0..<length ps]"
    by (simp add: relayed_def nth_append)
  then have e2: "filter is_emit (out @ ?out') = map (relayed srv (ids b) (ps @ [p])) [0..<length (ps @ [p])]"
    using e n by (simp add: relayed_def)
  have d2: "filter is_delivery (out @ ?out') = []" using d by simp
  have s2: "snippetSocket ?b2 = Some srv" using s by simp
  have n2: "ids ?b2 = ids b + length (ps @ [p])" using n by simp
  show ?case using run2 d2 e2 s2 n2 m2 by blast
qed

lemma replies_eq:
  assumes "filter is_emit out = map (relayed srv base calls) [0..<length calls]"
      and "set order \<subseteq> {..< length calls}"
  shows "replies out reply order = map (reply_ev srv base reply) order"
proof -
  have "(if i < length (filter is_emit out)
         then reply_to (filter is_emit out ! i) (reply i) else []) = [reply_ev srv base reply i]"
    if "i \<in> set order" for i
  proof -
    from that assms(2) have "i < length calls" by auto
    then show ?thesis using assms(1) by (simp add: relayed_def reply_ev_def)
  qed
  then have eq: "map (\<lambda>i. if i < length (filter is_emit out)
                       then reply_to (filter is_emit out ! i) (reply i) else []) order
               = map (\<lambda>i. [reply_ev srv base reply i]) order"
    by (intro map_cong) auto
  show ?thesis unfolding replies_def eq by (induction order) simp_all
qed

lemma attach_log_found [simp]:
  "attach_log (Log LInfo (''Design Snippets Server found. id: '' @ s) [])"
  by simp

lemma attach_log_other [simp]:
  "\<not> attach_log (Log LInfo (''connection from '' @ s) [])"
  "\<not> attach_log (Log LInfo (''disconnect: '' @ s) [])"
  by simp_all

lemma call_fn_no_log: "call_fn f xs = Inr out \<Longrightarrow> filter attach_log out = [] \<and> filter detach_log out = []"
  by (cases f) (auto simp: detach_log_def)

lemma step_balance:
  "step ev b = (out, r) \<Longrightarrow>
     (case r of
        Inr b' \<Rightarrow> occupied b + length (filter attach_log out)
                   = occupied b' + length (filter detach_log out)
      | Inl e \<Rightarrow> filter attach_log out = [] \<and> filter detach_log out = [])"
  by (cases ev)
     (auto simp: handler_defs Let_def occupied_def detach_log_def
           dest!: call_fn_no_log
           split: option.splits closure.splits if_splits sum.splits)

lemma run_balance:
  "run evs b = (out, r) \<Longrightarrow>
     \<exists>k. k \<le> 1 \<and>
         occupied b + length (filter attach_log out) = k + length (filter detach_log out) \<and>
         (\<forall>b'. r = Inr b' \<longrightarrow> k = occupied b')"
proof (induction evs arbitrary: b out r)
  case Nil
  then show ?case by (auto simp: occupied_def)
next
  case (Cons ev evs)
  obtain o1 r1 where st: "step ev b = (o1, r1)" by (cases "step ev b")
  show ?case
  proof (cases r1)
    case (Inl e)
    with st Cons.prems step_balance [OF st] show ?thesis
      by (auto simp: occupied_def intro: exI [of _ "occupied b"])
  next
    case (Inr b1)
    obtain o2 r2 where rn: "run evs b1 = (o2, r2)" by (cases "run evs b1")
    from Cons.IH [OF rn] obtain k where k: "k \<le> 1"
      "occupied b1 + length (filter attach_log o2) = k + length (filter detach_log o2)"
      "\<forall>b'. r2 = Inr b' \<longrightarrow> k = occupied b'" by blast
    from step_balance [OF st] Inr have
      "occupied b + length (filter attach_log o1) = occupied b1 + length (filter detach_log o1)"
      by simp
    moreover from st Inr rn Cons.prems have "out = o1 @ o2" "r = r2" by auto
    ultimately show ?thesis using k by (intro exI [of _ k]) auto
  qed
qed

lemma replies_delivered:
  assumes "distinct order"
      and "\<forall>i \<in> set order. map_of (acks b1) (srv, base + i) = Some (RelayCb (JAck c (snd (calls ! i))))"
  shows "\<exists>out b2. run (map (reply_ev srv base reply) order) b1 = (out, Inr b2) \<and>
           filter is_delivery out = map (delivery c calls reply) order"
  using assms
proof (induction order arbitrary: b1)
  case Nil
  then show ?case by simp
next
  case (Cons i order)
  let ?b = "b1\<lparr>acks := forget (srv, base + i) (acks b1)\<rparr>"
  have st: "step (reply_ev srv base reply i) b1 =
              ([Log LVerbose ''Relayed action returned %j'' [reply i], delivery c calls reply i], Inr ?b)"
    using Cons.prems(2) by (simp add: reply_ev_def on_ack_def relay_cb_def arg_def delivery_def)
  have "\<forall>j \<in> set order. map_of (acks ?b) (srv, base + j) = Some (RelayCb (JAck c (snd (calls ! j))))"
    using Cons.prems by (auto simp: map_of_forget)
  with Cons.IH [of ?b] Cons.prems(1) obtain out b2 where
    "run (map (reply_ev srv base reply) order) ?b = (out, Inr b2)"
    "filter is_delivery out = map (delivery c calls reply) order" by auto
  then show ?case using st by (simp add: delivery_def)
qed

lemma new_DsDriver_eq:
  "new_DsDriver p w =
     Inr (length (drivers w),
          w\<lparr>socket := Some (length (sockets w)),
            sockets := sockets w @
              [\<lparr>url = ''http://localhost:'' @ string_of_nat (case p of None \<Rightarrow> 5234 | Some q \<Rightarrow> q),
                handlers = [(''connect'', OnConnect (length (drivers w))),
                            (''getType'', OnGetType),
                            (''disconnect'', OnDisconnect (length (drivers w))),
                            (''single sample'', OnSingleSample (length (drivers w))),
                            (''sampler complete'', OnSamplerComplete (length (drivers w))),
                            (''no server'', OnNoServer (length (drivers w))),
                            (''server ok'', OnServerOk (length (drivers w)))],
                closed = False\<rparr>],
            drivers := drivers w @
              [\<lparr>addr = ''http://localhost:'' @ string_of_nat (case p of None \<Rightarrow> 5234 | Some q \<Rightarrow> q),
                sampleCallback = JNull, connectCallback = JNull,
                sampleFinalCallback = JNull, connected = False,
                snippetServerOnline = False\<rparr>]\<rparr>)"
  by (simp add: new_DsDriver_def sio_def bind_def bind_err_def socket_on_def Let_def)

lemma exec_sent:
  "socket w = Some h \<Longrightarrow>
     sent (snd (exec T fn args w)) = sent w @ [(h, ''action'', JObj [(''fn'', fn), (''args'', args)], None)]"
  by (simp add: exec_def emitAsync_def console_log_def split: outcome.splits)

lemma exec_socket: "socket (snd (exec T fn args w)) = socket w"
  by (simp add: exec_def emitAsync_def console_log_def split: outcome.splits option.splits)

lemma await_return: "await_then p return_js = p"
  by (cases p) (simp add: await_then_def return_js_def split: outcome.splits)

lemma new_sent_exec:
  "socket w = Some h \<Longrightarrow>
     new_sent w (snd (exec T fn args w)) = [(h, ''action'', JObj [(''fn'', fn), (''args'', args)], None)]"
  by (simp add: new_sent_def exec_sent)

lemma loadGPR_eq:
  "typeof name = ''string'' \<Longrightarrow>
     loadGPR T name td kd w =
       (case exec T (JStr ''snippet set data'') (JObj [(''name'', name), (''data'', td)]) w of
          (Fulfilled res, w1) \<Rightarrow>
             exec T (JStr ''snippet load gpr'') (JObj [(''name'', name), (''kernelData'', kd)]) w1
        | (Rejected e, w1) \<Rightarrow> (Rejected e, w1)
        | (Pending, w1) \<Rightarrow> (Pending, w1))"
  by (simp add: loadGPR_def setData_def await_return) (simp add: await_then_def)

lemma reset_eq:
  "reset T w =
     (case exec T (JStr ''reset'') JUndefined w of
        (Fulfilled res, w1) \<Rightarrow> (Fulfilled JUndefined, console_log [S ''Server reset performed''] w1)
      | (Rejected e, w1) \<Rightarrow> (Rejected e, w1)
      | (Pending, w1) \<Rightarrow> (Pending, w1))"
  by (simp add: reset_def await_then_def)

lemma invoke_rejects_non_string:
  "checks_name c \<Longrightarrow> typeof (name_of c) \<noteq> ''string'' \<Longrightarrow> invoke T c w = (Rejected missing_name, w)"
  by (cases c) (simp_all add: method_defs Let_def)

lemma invoke_sends:
  assumes "checks_name c \<longrightarrow> typeof (name_of c) = ''string''" "socket w = Some h"
  shows "new_sent w (snd (invoke T c w)) \<noteq> [] \<and>
         (\<forall>m \<in> set (new_sent w (snd (invoke T c w))). fst m = h \<and> fst (snd m) = ''action'')"
proof (cases c)
  case (LoadGPR name td kd)
  obtain r w1 where p: "exec T (JStr ''snippet set data'') (JObj [(''name'', name), (''data'', td)]) w = (r, w1)"
    by (cases "exec T (JStr ''snippet set data'') (JObj [(''name'', name), (''data'', td)]) w")
  have h1: "socket w1 = Some h"
    using exec_socket [of T "JStr ''snippet set data''" "JObj [(''name'', name), (''data'', td)]" w] p assms(2)
    by simp
  have s: "sent w1 = sent w @ [(h, ''action'', JObj [(''fn'', JStr ''snippet set data''),
              (''args'', JObj [(''name'', name), (''data'', td)])], None)]"
    using exec_sent [OF assms(2), of T "JStr ''snippet set data''" "JObj [(''name'', name), (''data'', td)]"] p
    by simp
  have s2: "sent (snd (exec T (JStr ''snippet load gpr'') (JObj [(''name'', name), (''kernelData'', kd)]) w1))
      = sent w1 @ [(h, ''action'', JObj [(''fn'', JStr ''snippet load gpr''),
              (''args'', JObj [(''name'', name), (''kernelData'', kd)])], None)]"
    using h1 by (rule exec_sent)
  show ?thesis using assms(1) LoadGPR p s s2
    by (cases r) (simp_all add: loadGPR_eq new_sent_def)
next
  case (Plot1D name x dim rmin rmax n)
  then show ?thesis using assms by (simp add: plot1D_def await_return new_sent_exec Let_def)
next
  case Reset
  obtain r w1 where p: "exec T (JStr ''reset'') JUndefined w = (r, w1)"
    by (cases "exec T (JStr ''reset'') JUndefined w")
  have s: "sent w1 = sent w @ [(h, ''action'', JObj [(''fn'', JStr ''reset''), (''args'', JUndefined)], None)]"
    using exec_sent [OF assms(2), of T "JStr ''reset''" JUndefined] p by simp
  show ?thesis using Reset p s
    by (cases r) (simp_all add: reset_eq new_sent_def console_log_def)
qed (use assms in \<open>simp_all add: method_defs await_return new_sent_exec\<close>)




section \<open>Calls while no server is registered\<close>

text \<open>
  C1 does not hold as stated. A client connects, answers \<^verbatim>\<open>"client"\<close> and calls
  \<^verbatim>\<open>samplerRunning()\<close> while no server is registered: the relay writes the warning
  and nothing else. No acknowledgement goes back to the client.
\<close>

theorem c1_counterexample:
  "run [Connect ''a'', Ack ''a'' 0 [JStr ''client''],
        Action ''a'' [JObj [(''fn'', JStr ''sampler running'')], JAck ''a'' 0]] init
     = ([Log LInfo ''connection from a'' [], Emit ''a'' (JStr ''getType'') [] 0,
         Log LWarn ''Unable to process action. No snippet server connected'' []],
        Inr \<lparr>snippetSocket = None, acks = [], ids = 1\<rparr>) \<and>
   filter is_delivery
     (fst (run [Connect ''a'', Ack ''a'' 0 [JStr ''client''],
                Action ''a'' [JObj [(''fn'', JStr ''sampler running'')], JAck ''a'' 0]] init))
     = []"
  by (simp add: init_def handler_defs arg_def forget_def)

text \<open>
  C1, amended: for every client call that arrives while no server is registered, the
  relay only writes a warning to its log. The call is neither forwarded nor queued and
  the state is unchanged, so whatever happens afterwards is what would have happened
  without the call: the caller's acknowledgement function is never called.
\<close>

theorem c1_no_worker_call_dropped:
  "snippetSocket b = None \<Longrightarrow>
     step (Action s as) b
       = ([Log LWarn ''Unable to process action. No snippet server connected'' []], Inr b) \<and>
     run (Action s as # evs) b
       = (Log LWarn ''Unable to process action. No snippet server connected'' [] # fst (run evs b),
          snd (run evs b))"
  by (simp add: on_action_def split: prod.splits)

theorem c1_no_worker_call_dropped_witness:
  "snippetSocket init = None \<and>
   step (Action ''a'' [JObj [(''fn'', JStr ''sampler running'')], JAck ''a'' 0]) init
     = ([Log LWarn ''Unable to process action. No snippet server connected'' []], Inr init) \<and>
   run [Action ''a'' [JObj [(''fn'', JStr ''sampler running'')], JAck ''a'' 0], Connect ''w''] init
     = ([Log LWarn ''Unable to process action. No snippet server connected'' [],
         Log LInfo ''connection from w'' [], Emit ''w'' (JStr ''getType'') [] 0],
        Inr \<lparr>snippetSocket = None, acks = [((''w'', 0), GetTypeCb ''w'')], ids = 1\<rparr>)"
  using c1_no_worker_call_dropped
          [of init "''a''" "[JObj [(''fn'', JStr ''sampler running'')], JAck ''a'' 0]" "[Connect ''w'']"]
  by (simp add: init_def on_connect_def)

section \<open>At most one server\<close>

text \<open>
  C2: for every sequence of connect, disconnect, acknowledgement and action events, at
  most one connection holds the server role at any time: registrations and releases
  alternate in the relay's log, beginning with a registration, so the number of
  connections registered and not yet released is 0 or 1, and it is 1 exactly when
  \<^verbatim>\<open>snippetSocket\<close> is set. When a connection answers the type query as a server
  while one is registered, the relay reports an error, leaves the new connection
  unregistered and the registration as it was. A step never replaces a registered
  server by another connection: afterwards the same server is registered, or none is,
  and then the step was the server's disconnection or an action named
  \<^verbatim>\<open>disconnect\<close>.
\<close>

theorem c2_single_worker:
  "(run evs init = (out, r) \<longrightarrow>
      length (filter detach_log out) \<le> length (filter attach_log out) \<and>
      length (filter attach_log out) \<le> Suc (length (filter detach_log out)) \<and>
      (\<forall>b. r = Inr b \<longrightarrow>
         length (filter attach_log out) = length (filter detach_log out) + occupied b \<and>
         (\<forall>c1 c2. holds_worker b c1 \<and> holds_worker b c2 \<longrightarrow> c1 = c2))) \<and>
   (snippetSocket b0 = Some w \<and> map_of (acks b0) (s, n) = Some (GetTypeCb s) \<longrightarrow>
      step (Ack s n (JStr ''server'' # rest)) b0
        = ([Log LError ''Server already connected. Disconnect other server first'' []],
           Inr (b0\<lparr>acks := forget (s, n) (acks b0)\<rparr>))) \<and>
   (step ev b0 = (out0, Inr b1) \<and> snippetSocket b0 = Some w \<longrightarrow>
      snippetSocket b1 = Some w \<or>
      (snippetSocket b1 = None \<and>
       (ev = Disconnect w \<or>
        (\<exists>c xs. ev = Action c xs \<and> get_prop (arg xs 0) ''fn'' = Inr (JStr ''disconnect'')))))"
proof -
  have 1: "length (filter detach_log out) \<le> length (filter attach_log out) \<and>
      length (filter attach_log out) \<le> Suc (length (filter detach_log out)) \<and>
      (\<forall>b. r = Inr b \<longrightarrow>
         length (filter attach_log out) = length (filter detach_log out) + occupied b \<and>
         (\<forall>c1 c2. holds_worker b c1 \<and> holds_worker b c2 \<longrightarrow> c1 = c2))"
    if "run evs init = (out, r)"
  proof -
    from run_balance [OF that] obtain k where "k \<le> 1"
      "occupied init + length (filter attach_log out) = k + length (filter detach_log out)"
      "\<forall>b'. r = Inr b' \<longrightarrow> k = occupied b'" by blast
    then show ?thesis by (auto simp: occupied_def init_def holds_worker_def)
  qed
  have 2: "step (Ack s n (JStr ''server'' # rest)) b0
        = ([Log LError ''Server already connected. Disconnect other server first'' []],
           Inr (b0\<lparr>acks := forget (s, n) (acks b0)\<rparr>))"
    if "snippetSocket b0 = Some w" "map_of (acks b0) (s, n) = Some (GetTypeCb s)"
    using that by (simp add: on_ack_def getType_cb_def arg_def)
  show ?thesis using 1 2 step_keeps_worker [of ev b0 out0 b1 w] by blast
qed

theorem c2_single_worker_witness:
  "run [Connect ''w'', Ack ''w'' 0 [JStr ''server''],
        Connect ''x'', Ack ''x'' 1 [JStr ''server''],
        Disconnect ''w'',
        Connect ''y'', Ack ''y'' 2 [JStr ''server'']] init
     = ([Log LInfo ''connection from w'' [], Emit ''w'' (JStr ''getType'') [] 0,
         Log LInfo ''Design Snippets Server found. id: w'' [],
         Log LInfo ''connection from x'' [], Emit ''x'' (JStr ''getType'') [] 1,
         Log LError ''Server already connected. Disconnect other server first'' [],
         Log LWarn ''Snippet server disconnected'' [], Log LInfo ''disconnect: w'' [],
         Log LInfo ''connection from y'' [], Emit ''y'' (JStr ''getType'') [] 2,
         Log LInfo ''Design Snippets Server found. id: y'' []],
        Inr \<lparr>snippetSocket = Some ''y'', acks = [], ids = 3\<rparr>) \<and>
   length (filter attach_log
             [Log LInfo ''connection from w'' [], Emit ''w'' (JStr ''getType'') [] 0,
              Log LInfo ''Design Snippets Server found. id: w'' [],
              Log LInfo ''connection from x'' [], Emit ''x'' (JStr ''getType'') [] 1,
              Log LError ''Server already connected. Disconnect other server first'' [],
              Log LWarn ''Snippet server disconnected'' [], Log LInfo ''disconnect: w'' [],
              Log LInfo ''connection from y'' [], Emit ''y'' (JStr ''getType'') [] 2,
              Log LInfo ''Design Snippets Server found. id: y'' []]) = 2 \<and>
   length (filter detach_log
             [Log LInfo ''connection from w'' [], Emit ''w'' (JStr ''getType'') [] 0,
              Log LInfo ''Design Snippets Server found. id: w'' [],
              Log LInfo ''connection from x'' [], Emit ''x'' (JStr ''getType'') [] 1,
              Log LError ''Server already connected. Disconnect other server first'' [],
              Log LWarn ''Snippet server disconnected'' [], Log LInfo ''disconnect: w'' [],
              Log LInfo ''connection from y'' [], Emit ''y'' (JStr ''getType'') [] 2,
              Log LInfo ''Design Snippets Server found. id: y'' []]) = 1 \<and>
   occupied \<lparr>snippetSocket = Some ''y'', acks = [], ids = 3\<rparr> = 1 \<and>
   holds_worker \<lparr>snippetSocket = Some ''y'', acks = [], ids = 3\<rparr> ''y'' \<and>
   \<not> holds_worker \<lparr>snippetSocket = Some ''y'', acks = [], ids = 3\<rparr> ''w'' \<and>
   snippetSocket \<lparr>snippetSocket = Some ''w'', acks = [((''x'', 1), GetTypeCb ''x'')], ids = 2\<rparr>
     = Some ''w'' \<and>
   map_of (acks \<lparr>snippetSocket = Some ''w'', acks = [((''x'', 1), GetTypeCb ''x'')], ids = 2\<rparr>)
     (''x'', 1) = Some (GetTypeCb ''x'') \<and>
   step (Ack ''x'' 1 [JStr ''server''])
        \<lparr>snippetSocket = Some ''w'', acks = [((''x'', 1), GetTypeCb ''x'')], ids = 2\<rparr>
     = ([Log LError ''Server already connected. Disconnect other server first'' []],
        Inr \<lparr>snippetSocket = Some ''w'', acks = [], ids = 2\<rparr>) \<and>
   step (Disconnect ''w'')
        \<lparr>snippetSocket = Some ''w'', acks = [((''x'', 1), GetTypeCb ''x'')], ids = 2\<rparr>
     = ([Log LWarn ''Snippet server disconnected'' [], Log LInfo ''disconnect: w'' []],
        Inr \<lparr>snippetSocket = None, acks = [((''x'', 1), GetTypeCb ''x'')], ids = 2\<rparr>)"
proof -
  have eval: ?thesis
    by (simp add: init_def handler_defs arg_def forget_def holds_worker_def occupied_def
          detach_log_def)
  show ?thesis
    using c2_single_worker
            [of "[Connect ''w'', Ack ''w'' 0 [JStr ''server''],
                  Connect ''x'', Ack ''x'' 1 [JStr ''server''],
                  Disconnect ''w'',
                  Connect ''y'', Ack ''y'' 2 [JStr ''server'']]"
                "[Log LInfo ''connection from w'' [], Emit ''w'' (JStr ''getType'') [] 0,
                  Log LInfo ''Design Snippets Server found. id: w'' [],
                  Log LInfo ''connection from x'' [], Emit ''x'' (JStr ''getType'') [] 1,
                  Log LError ''Server already connected. Disconnect other server first'' [],
                  Log LWarn ''Snippet server disconnected'' [], Log LInfo ''disconnect: w'' [],
                  Log LInfo ''connection from y'' [], Emit ''y'' (JStr ''getType'') [] 2,
                  Log LInfo ''Design Snippets Server found. id: y'' []]"
                "Inr \<lparr>snippetSocket = Some ''y'', acks = [], ids = 3\<rparr>"
                "\<lparr>snippetSocket = Some ''w'', acks = [((''x'', 1), GetTypeCb ''x'')], ids = 2\<rparr>"
                "''w''" "''x''" 1 "[]"
                "Disconnect ''w''"
                "[Log LWarn ''Snippet server disconnected'' [], Log LInfo ''disconnect: w'' []]"
                "\<lparr>snippetSocket = None, acks = [((''x'', 1), GetTypeCb ''x'')], ids = 2\<rparr>"] eval
    by simp
qed

section \<open>The server disconnects while calls are pending\<close>

text \<open>
  C3 does not hold as stated. A server and a client connect, the client's call is
  relayed, and the server disconnects before it answers: the relay writes two log
  lines. Nothing is delivered to the client, and the callback of the relayed call is
  still registered afterwards.
\<close>

theorem c3_counterexample:
  \<open>run [Connect ''w'', Ack ''w'' 0 [JStr ''server''],
        Connect ''c'', Ack ''c'' 1 [JStr ''client''],
        Action ''c'' [train_foo, JAck ''c'' 0],
        Disconnect ''w''] init
     = ([Log LInfo ''connection from w'' [], Emit ''w'' (JStr ''getType'') [] 0,
         Log LInfo ''Design Snippets Server found. id: w'' [],
         Log LInfo ''connection from c'' [], Emit ''c'' (JStr ''getType'') [] 1,
         Log LVerbose ''Relaying action "%s". Args: %j.''
           [JStr ''snippet train'', JObj [(''name'', JStr ''foo'')]],
         Emit ''w'' (JStr ''snippet train'') [JObj [(''name'', JStr ''foo'')]] 2,
         Log LWarn ''Snippet server disconnected'' [],
         Log LInfo ''disconnect: w'' []],
        Inr \<lparr>snippetSocket = None, acks = [((''w'', 2), RelayCb (JAck ''c'' 0))], ids = 3\<rparr>)\<close>
  by (simp add: init_def handler_defs reserved_def arg_def forget_def train_foo_def)

text \<open>
  C3, amended: when the registered server disconnects, the relay clears
  \<^verbatim>\<open>snippetSocket\<close> and writes a warning and an info line to its log, and that is
  all. So when it disconnects while K calls of a client that were relayed to it are
  pending, nothing is delivered to the client, and the K callbacks are still
  registered afterwards: no pending call is resolved.
\<close>

theorem c3_worker_disconnect_resolves_nothing:
  assumes "snippetSocket b = Some srv"
      and "\<forall>p \<in> set calls. relayable (fst p)"
  shows "step (Disconnect srv) b
           = ([Log LWarn ''Snippet server disconnected'' [], Log LInfo (''disconnect: '' @ srv) []],
              Inr (b\<lparr>snippetSocket := None\<rparr>)) \<and>
         filter is_emit (fst (run (map (call_ev c) calls @ [Disconnect srv]) b))
           = map (relayed srv (ids b) calls) [0..<length calls] \<and>
         filter is_delivery (fst (run (map (call_ev c) calls @ [Disconnect srv]) b)) = [] \<and>
         (\<exists>b2. snd (run (map (call_ev c) calls @ [Disconnect srv]) b) = Inr b2 \<and>
               snippetSocket b2 = None \<and>
               (\<forall>i < length calls.
                  map_of (acks b2) (srv, ids b + i) = Some (RelayCb (JAck c (snd (calls ! i))))))"
proof -
  from calls_registered [OF assms] obtain out b1 where
    r: "run (map (call_ev c) calls) b = (out, Inr b1)"
    and d: "filter is_delivery out = []"
    and e: "filter is_emit out = map (relayed srv (ids b) calls) [0..<length calls]"
    and s: "snippetSocket b1 = Some srv"
    and m: "\<forall>i < length calls.
              map_of (acks b1) (srv, ids b + i) = Some (RelayCb (JAck c (snd (calls ! i))))"
    by blast
  have "run (map (call_ev c) calls @ [Disconnect srv]) b
          = (out @ [Log LWarn ''Snippet server disconnected'' [],
                    Log LInfo (''disconnect: '' @ srv) []],
             Inr (b1\<lparr>snippetSocket := None\<rparr>))"
    using r s by (simp add: run_append on_disconnect_def)
  then show ?thesis using assms(1) d e m by (simp add: on_disconnect_def)
qed

theorem c3_worker_disconnect_resolves_nothing_witness:
  "snippetSocket serving = Some ''w'' \<and> relayable train_foo \<and> relayable list_call \<and>
   step (Disconnect ''w'') serving
     = ([Log LWarn ''Snippet server disconnected'' [], Log LInfo ''disconnect: w'' []],
        Inr \<lparr>snippetSocket = None, acks = [], ids = 2\<rparr>) \<and>
   filter is_emit
     (fst (run [Action ''c'' [train_foo, JAck ''c'' 0], Action ''c'' [list_call, JAck ''c'' 1],
                Disconnect ''w''] serving))
     = [Emit ''w'' (JStr ''snippet train'') [JObj [(''name'', JStr ''foo'')]] 2,
        Emit ''w'' (JStr ''list snippets'') [JObj []] 3] \<and>
   filter is_delivery
     (fst (run [Action ''c'' [train_foo, JAck ''c'' 0], Action ''c'' [list_call, JAck ''c'' 1],
                Disconnect ''w''] serving)) = [] \<and>
   snd (run [Action ''c'' [train_foo, JAck ''c'' 0], Action ''c'' [list_call, JAck ''c'' 1],
             Disconnect ''w''] serving)
     = Inr \<lparr>snippetSocket = None,
            acks = [((''w'', 3), RelayCb (JAck ''c'' 1)), ((''w'', 2), RelayCb (JAck ''c'' 0))],
            ids = 4\<rparr>"
proof -
  have eval: ?thesis
    by (simp add: serving_def train_foo_def list_call_def call_ev_def handler_defs reserved_def
          relayable_def relayed_def field_of_def arg_def)
  show ?thesis
    using c3_worker_disconnect_resolves_nothing
            [of serving "''w''" "[(train_foo, 0), (list_call, 1)]" "''c''"] eval
    by simp
qed

section \<open>Presence events\<close>

text \<open>
  C4 does not hold as stated. A client is connected when the server attaches and when
  it detaches again: everything the relay does is two type queries and five log lines.
  Neither \<^verbatim>\<open>"server ok"\<close> nor \<^verbatim>\<open>"no server"\<close> is sent to the client.
\<close>

theorem c4_counterexample:
  "run [Connect ''c'', Ack ''c'' 0 [JStr ''client''],
        Connect ''w'', Ack ''w'' 1 [JStr ''server''],
        Disconnect ''w''] init
     = ([Log LInfo ''connection from c'' [], Emit ''c'' (JStr ''getType'') [] 0,
         Log LInfo ''connection from w'' [], Emit ''w'' (JStr ''getType'') [] 1,
         Log LInfo ''Design Snippets Server found. id: w'' [],
         Log LWarn ''Snippet server disconnected'' [],
         Log LInfo ''disconnect: w'' []],
        Inr \<lparr>snippetSocket = None, acks = [], ids = 2\<rparr>)"
  by (simp add: init_def handler_defs arg_def forget_def)

text \<open>
  C4, amended: on a server attach transition the relay only records the server and
  writes a log line, and on a detach transition it only clears the record and writes
  two log lines; no event is delivered to any client. The only events the relay ever
  emits are the type query to a connection that has just connected and a relayed call
  to the registered server, named as the caller asked: the relay never originates
  \<^verbatim>\<open>"server ok"\<close> or \<^verbatim>\<open>"no server"\<close>.
\<close>

theorem c4_no_presence_events:
  "(snippetSocket b = None \<and> map_of (acks b) (s, n) = Some (GetTypeCb s) \<longrightarrow>
      fst (step (Ack s n (JStr ''server'' # rest)) b)
        = [Log LInfo (''Design Snippets Server found. id: '' @ s) []]) \<and>
   (snippetSocket b' = Some w \<longrightarrow>
      fst (step (Disconnect w) b')
        = [Log LWarn ''Snippet server disconnected'' [], Log LInfo (''disconnect: '' @ w) []]) \<and>
   (Emit t nm as k \<in> set (fst (step ev b'')) \<longrightarrow>
      (ev = Connect t \<and> nm = JStr ''getType'') \<or>
      (snippetSocket b'' = Some t \<and>
       (\<exists>c xs. ev = Action c xs \<and> get_prop (arg xs 0) ''fn'' = Inr nm)))"
  using step_emits [of t nm as k ev b'']
  by (auto simp: on_ack_def getType_cb_def arg_def on_disconnect_def)

theorem c4_no_presence_events_witness:
  "snippetSocket \<lparr>snippetSocket = None, acks = [((''w'', 1), GetTypeCb ''w'')], ids = 2\<rparr> = None \<and>
   map_of (acks \<lparr>snippetSocket = None, acks = [((''w'', 1), GetTypeCb ''w'')], ids = 2\<rparr>) (''w'', 1)
     = Some (GetTypeCb ''w'') \<and>
   fst (step (Ack ''w'' 1 [JStr ''server''])
          \<lparr>snippetSocket = None, acks = [((''w'', 1), GetTypeCb ''w'')], ids = 2\<rparr>)
     = [Log LInfo ''Design Snippets Server found. id: w'' []] \<and>
   snippetSocket serving = Some ''w'' \<and>
   fst (step (Disconnect ''w'') serving)
     = [Log LWarn ''Snippet server disconnected'' [], Log LInfo ''disconnect: w'' []] \<and>
   Emit ''c'' (JStr ''getType'') [] 2 \<in> set (fst (step (Connect ''c'') serving))"
  using c4_no_presence_events
          [of "\<lparr>snippetSocket = None, acks = [((''w'', 1), GetTypeCb ''w'')], ids = 2\<rparr>"
              "''w''" 1 "[]" serving "''w''"
              "''c''" "JStr ''getType''" "[]" 2 "Connect ''c''" serving]
  by (simp add: serving_def on_connect_def)

section \<open>The answer to the type query\<close>

text \<open>
  C5 does not hold as stated. A connection that answers the type query with the
  literal string \<^verbatim>\<open>"worker"\<close> while no server is registered is not registered.
\<close>

theorem c5_counterexample:
  "run [Connect ''s'', Ack ''s'' 0 [JStr ''worker'']] init
     = ([Log LInfo ''connection from s'' [], Emit ''s'' (JStr ''getType'') [] 0],
        Inr \<lparr>snippetSocket = None, acks = [], ids = 1\<rparr>)"
  by (simp add: init_def handler_defs arg_def forget_def)

text \<open>
  C5, amended: when a new connection answers the relay's type query with the literal
  string \<^verbatim>\<open>"server"\<close> and no server is registered, the relay registers that
  connection as the server. Every other answer, \<^verbatim>\<open>"worker"\<close> and \<^verbatim>\<open>"client"\<close>
  included, changes nothing and is not reported. A driver made by the constructor
  answers the query with the literal string \<^verbatim>\<open>"client"\<close>.
\<close>

theorem c5_server_literal_registers:
  "(snippetSocket b = None \<and> map_of (acks b) (s, n) = Some (GetTypeCb s) \<longrightarrow>
      step (Ack s n (JStr ''server'' # rest)) b
        = ([Log LInfo (''Design Snippets Server found. id: '' @ s) []],
           Inr (b\<lparr>acks := forget (s, n) (acks b), snippetSocket := Some s\<rparr>))) \<and>
   (t \<noteq> JStr ''server'' \<and> map_of (acks b') (s', n') = Some (GetTypeCb s') \<longrightarrow>
      step (Ack s' n' (t # rest')) b' = ([], Inr (b'\<lparr>acks := forget (s', n') (acks b')\<rparr>))) \<and>
   (new_DsDriver p w = Inr (d, w') \<and> socket w' = Some h \<and> typeof cb = ''function'' \<longrightarrow>
      receive h ''getType'' [cb] w' = Inr (w'\<lparr>called := called w' @ [(cb, [JStr ''client''])]\<rparr>))"
proof -
  have "receive h ''getType'' [cb] w' = Inr (w'\<lparr>called := called w' @ [(cb, [JStr ''client''])]\<rparr>)"
    if "new_DsDriver p w = Inr (d, w')" "socket w' = Some h" "typeof cb = ''function''"
    using that unfolding new_DsDriver_eq
    by (auto simp: receive_def call_cb_def arg_def)
  then show ?thesis
    by (auto simp: on_ack_def getType_cb_def arg_def)
qed

theorem c5_server_literal_registers_witness:
  "snippetSocket \<lparr>snippetSocket = None, acks = [((''s'', 0), GetTypeCb ''s'')], ids = 1\<rparr> = None \<and>
   map_of (acks \<lparr>snippetSocket = None, acks = [((''s'', 0), GetTypeCb ''s'')], ids = 1\<rparr>) (''s'', 0)
     = Some (GetTypeCb ''s'') \<and>
   step (Ack ''s'' 0 [JStr ''server''])
        \<lparr>snippetSocket = None, acks = [((''s'', 0), GetTypeCb ''s'')], ids = 1\<rparr>
     = ([Log LInfo ''Design Snippets Server found. id: s'' []],
        Inr \<lparr>snippetSocket = Some ''s'', acks = [], ids = 1\<rparr>) \<and>
   JStr ''client'' \<noteq> JStr ''server'' \<and>
   step (Ack ''s'' 0 [JStr ''client''])
        \<lparr>snippetSocket = None, acks = [((''s'', 0), GetTypeCb ''s'')], ids = 1\<rparr>
     = ([], Inr \<lparr>snippetSocket = None, acks = [], ids = 1\<rparr>) \<and>
   new_DsDriver None world0 = Inr (0, world1) \<and> socket world1 = Some 0 \<and>
   typeof (JAck ''relay'' 0) = ''function'' \<and>
   receive 0 ''getType'' [JAck ''relay'' 0] world1
     = Inr (world1\<lparr>called := [(JAck ''relay'' 0, [JStr ''client''])]\<rparr>)"
  using c5_server_literal_registers
          [of "\<lparr>snippetSocket = None, acks = [((''s'', 0), GetTypeCb ''s'')], ids = 1\<rparr>"
              "''s''" 0 "[]" "JStr ''client''"
              "\<lparr>snippetSocket = None, acks = [((''s'', 0), GetTypeCb ''s'')], ids = 1\<rparr>"
              "''s''" 0 "[]" None world0 0 world1 0 "JAck ''relay'' 0"]
  by (simp add: forget_def world1_def new_DsDriver_eq world0_def)

section \<open>Local validation in the typed layer\<close>




section \<open>Correlation of replies\<close>

text \<open>
  C7 is what the code is meant to do, and the relay does its part, but the driver
  loses the reply. Let a server be registered and let one client issue N calls in
  order. The relay sends the server one event per call, named and numbered in that
  order; in whatever order the server acknowledges these events (each at most once),
  the relay hands every reply to the acknowledgement function of the call it answers,
  as its single argument, and the run does not fail. The promise that \<^verbatim>\<open>exec\<close>
  awaits, however, reads the first argument of the acknowledgement as an error: a
  call whose message is acknowledged with one argument resolves with
  \<^verbatim>\<open>undefined\<close>, whatever the reply was.
\<close>

theorem c7_correlated_by_relay_dropped_by_exec:
  assumes "snippetSocket b = Some srv"
      and "\<forall>p \<in> set calls. relayable (fst p)"
      and "distinct order" and "set order \<subseteq> {..< length calls}"
  shows "filter is_emit (fst (run (map (call_ev c) calls) b))
           = map (relayed srv (ids b) calls) [0..<length calls] \<and>
         (\<exists>b2. snd (run (map (call_ev c) calls
                          @ replies (fst (run (map (call_ev c) calls) b)) reply order) b) = Inr b2) \<and>
         filter is_delivery
           (fst (run (map (call_ev c) calls
                      @ replies (fst (run (map (call_ev c) calls) b)) reply order) b))
           = map (delivery c calls reply) order \<and>
         (A (length (sent w)) = Some [v] \<longrightarrow>
            fst (exec (promisified A) fn args w) = Fulfilled JUndefined)"
proof -
  from calls_registered [OF assms(1,2)] obtain out b1 where
    r: "run (map (call_ev c) calls) b = (out, Inr b1)"
    and d: "filter is_delivery out = []"
    and e: "filter is_emit out = map (relayed srv (ids b) calls) [0..<length calls]"
    and m: "\<forall>i < length calls.
              map_of (acks b1) (srv, ids b + i) = Some (RelayCb (JAck c (snd (calls ! i))))"
    by blast
  have rp: "replies out reply order = map (reply_ev srv (ids b) reply) order"
    using e assms(4) by (rule replies_eq)
  have "\<forall>i \<in> set order. map_of (acks b1) (srv, ids b + i) = Some (RelayCb (JAck c (snd (calls ! i))))"
    using m assms(4) by auto
  from replies_delivered [OF assms(3) this] obtain out' b2 where
    "run (map (reply_ev srv (ids b) reply) order) b1 = (out', Inr b2)"
    "filter is_delivery out' = map (delivery c calls reply) order" by blast
  then have "run (map (call_ev c) calls @ replies out reply order) b = (out @ out', Inr b2)"
    "filter is_delivery (out @ out') = map (delivery c calls reply) order"
    using r d rp by (simp_all add: run_append)
  moreover have "fst (exec (promisified A) fn args w) = Fulfilled JUndefined"
    if "A (length (sent w)) = Some [v]"
    using that
    by (auto simp: exec_def emitAsync_def promisified_def nodeback_def arg_def
             split: option.splits)
  ultimately show ?thesis using r e by simp
qed

theorem c7_correlated_by_relay_dropped_by_exec_witness:
  "snippetSocket serving = Some ''w'' \<and> relayable list_call \<and> relayable train_foo \<and>
   distinct [1, 0 :: nat] \<and> set [1, 0 :: nat] \<subseteq> {..< 2} \<and>
   filter is_emit
     (fst (run [Action ''a'' [list_call, JAck ''a'' 0], Action ''a'' [train_foo, JAck ''a'' 1]]
             serving))
     = [Emit ''w'' (JStr ''list snippets'') [JObj []] 2,
        Emit ''w'' (JStr ''snippet train'') [JObj [(''name'', JStr ''foo'')]] 3] \<and>
   replies
     (fst (run [Action ''a'' [list_call, JAck ''a'' 0], Action ''a'' [train_foo, JAck ''a'' 1]]
             serving)) two_replies [1, 0]
     = [Ack ''w'' 3 [kernel], Ack ''w'' 2 [names]] \<and>
   filter is_delivery
     (fst (run [Action ''a'' [list_call, JAck ''a'' 0], Action ''a'' [train_foo, JAck ''a'' 1],
                Ack ''w'' 3 [kernel], Ack ''w'' 2 [names]] serving))
     = [SendAck ''a'' 1 [kernel], SendAck ''a'' 0 [names]] \<and>
   acks_from [SendAck ''a'' 1 [kernel], SendAck ''a'' 0 [names]] ''a'' (length (sent world1))
     = Some [names] \<and>
   sent (snd (exec (promisified (acks_from [SendAck ''a'' 1 [kernel], SendAck ''a'' 0 [names]] ''a''))
                (JStr ''snippet train'') (JObj [(''name'', JStr ''foo'')])
                (snd (exec (promisified (acks_from [SendAck ''a'' 1 [kernel], SendAck ''a'' 0 [names]] ''a''))
                        (JStr ''list snippets'') (JObj []) world1))))
     = [(0, ''action'', list_call, None), (0, ''action'', train_foo, None)] \<and>
   fst (exec (promisified (acks_from [SendAck ''a'' 1 [kernel], SendAck ''a'' 0 [names]] ''a''))
          (JStr ''list snippets'') (JObj []) world1) = Fulfilled JUndefined \<and>
   fst (exec (promisified (acks_from [SendAck ''a'' 1 [kernel], SendAck ''a'' 0 [names]] ''a''))
          (JStr ''snippet train'') (JObj [(''name'', JStr ''foo'')])
          (snd (exec (promisified (acks_from [SendAck ''a'' 1 [kernel], SendAck ''a'' 0 [names]] ''a''))
                  (JStr ''list snippets'') (JObj []) world1))) = Fulfilled JUndefined"
proof -
  have eval: ?thesis
    by (simp add: serving_def list_call_def train_foo_def names_def kernel_def two_replies_def
          call_ev_def replies_def relayed_def field_of_def delivery_def relayable_def
          handler_defs reserved_def arg_def forget_def
          world1_def new_DsDriver_eq world0_def exec_def emitAsync_def promisified_def
          nodeback_def console_log_def)
  show ?thesis
    using c7_correlated_by_relay_dropped_by_exec
            [of serving "''w''" "[(list_call, 0), (train_foo, 1)]" "[1, 0]" "''a''" two_replies
                "acks_from [SendAck ''a'' 1 [kernel], SendAck ''a'' 0 [names]] ''a''" world1 names
                "JStr ''list snippets''" "JObj []"] eval
    by simp
qed

section \<open>A relayed call, end to end\<close>

text \<open>
  C8 does not hold as stated. With a server registered, the envelope of
  \<^verbatim>\<open>train("foo")\<close> reaches the relay as an \<^verbatim>\<open>action\<close> event; what the relay emits
  to the server is an event named \<^verbatim>\<open>snippet train\<close> whose payload is the arguments
  alone, and no event named \<^verbatim>\<open>action\<close>. The server acknowledges with a kernel
  description and the relay acknowledges the client's message with that value as the
  single argument; the driver's \<^verbatim>\<open>train\<close> call then resolves with \<^verbatim>\<open>undefined\<close>.
\<close>

theorem c8_counterexample:
  \<open>snippetSocket serving = Some ''w'' \<and>
   fst (run [Action ''a'' [train_foo, JAck ''a'' 0], Ack ''w'' 2 [kernel]] serving)
     = [Log LVerbose ''Relaying action "%s". Args: %j.''
          [JStr ''snippet train'', JObj [(''name'', JStr ''foo'')]],
        Emit ''w'' (JStr ''snippet train'') [JObj [(''name'', JStr ''foo'')]] 2,
        Log LVerbose ''Relayed action returned %j'' [kernel],
        SendAck ''a'' 0 [kernel]] \<and>
   Emit ''w'' (JStr ''action'') [train_foo] 2
     \<notin> set (fst (run [Action ''a'' [train_foo, JAck ''a'' 0], Ack ''w'' 2 [kernel]] serving)) \<and>
   sent (snd (train (promisified (acks_from [SendAck ''a'' 0 [kernel]] ''a'')) (JStr ''foo'') world1))
     = [(0, ''action'', train_foo, None)] \<and>
   fst (train (promisified (acks_from [SendAck ''a'' 0 [kernel]] ''a'')) (JStr ''foo'') world1)
     = Fulfilled JUndefined \<and>
   kernel \<noteq> JUndefined\<close>
  by (simp add: serving_def train_foo_def kernel_def handler_defs reserved_def arg_def forget_def
        world1_def new_DsDriver_eq world0_def train_def exec_def emitAsync_def promisified_def
        nodeback_def console_log_def await_then_def return_js_def)

text \<open>
  C8, amended: when a client calls \<^verbatim>\<open>train("foo")\<close>, the driver sends the envelope
  named \<^verbatim>\<open>action\<close> with fn \<^verbatim>\<open>"snippet train"\<close> and args \<^verbatim>\<open>{name:"foo"}\<close>. With a
  server registered, the relay unwraps it: the server receives an event named
  \<^verbatim>\<open>snippet train\<close> with payload \<^verbatim>\<open>{name:"foo"}\<close>, and the value the server
  acknowledges it with is handed verbatim, uninterpreted, to the acknowledgement
  function of the client's call.
\<close>

theorem c8_train_relayed_unwrapped:
  \<open>(socket w = Some h \<longrightarrow>
      sent (snd (train T (JStr ''foo'') w)) = sent w @ [(h, ''action'', train_foo, None)]) \<and>
   (snippetSocket b = Some srv \<longrightarrow>
      run [Action a [train_foo, JAck a k], Ack srv (ids b) (v # rest)] b
        = ([Log LVerbose ''Relaying action "%s". Args: %j.''
              [JStr ''snippet train'', JObj [(''name'', JStr ''foo'')]],
            Emit srv (JStr ''snippet train'') [JObj [(''name'', JStr ''foo'')]] (ids b),
            Log LVerbose ''Relayed action returned %j'' [v],
            SendAck a k [v]],
           Inr (b\<lparr>acks := forget (srv, ids b) (acks b), ids := ids b + 1\<rparr>)))\<close>
proof -
  have 1: "sent (snd (train T (JStr ''foo'') w)) = sent w @ [(h, ''action'', train_foo, None)]"
    if "socket w = Some h"
    using exec_sent [OF that, of T "JStr ''snippet train''" "JObj [(''name'', JStr ''foo'')]"]
    by (simp add: train_def await_return train_foo_def)
  have 3: \<open>run [Action a [train_foo, JAck a k], Ack srv (ids b) (v # rest)] b
        = ([Log LVerbose ''Relaying action "%s". Args: %j.''
              [JStr ''snippet train'', JObj [(''name'', JStr ''foo'')]],
            Emit srv (JStr ''snippet train'') [JObj [(''name'', JStr ''foo'')]] (ids b),
            Log LVerbose ''Relayed action returned %j'' [v],
            SendAck a k [v]],
           Inr (b\<lparr>acks := forget (srv, ids b) (acks b), ids := ids b + 1\<rparr>))\<close>
    if "snippetSocket b = Some srv"
    using that
    by (simp add: on_action_def emit_to_def reserved_def on_ack_def relay_cb_def arg_def
          train_foo_def forget_def)
  show ?thesis using 1 3 by blast
qed

theorem c8_train_relayed_unwrapped_witness:
  \<open>socket world1 = Some 0 \<and>
   sent (snd (train (answering JNull) (JStr ''foo'') world1))
     = [(0, ''action'', train_foo, None)] \<and>
   snippetSocket serving = Some ''w'' \<and>
   run [Action ''a'' [train_foo, JAck ''a'' 0], Ack ''w'' 2 [kernel]] serving
     = ([Log LVerbose ''Relaying action "%s". Args: %j.''
           [JStr ''snippet train'', JObj [(''name'', JStr ''foo'')]],
         Emit ''w'' (JStr ''snippet train'') [JObj [(''name'', JStr ''foo'')]] 2,
         Log LVerbose ''Relayed action returned %j'' [kernel],
         SendAck ''a'' 0 [kernel]],
        Inr \<lparr>snippetSocket = Some ''w'', acks = [], ids = 3\<rparr>)\<close>
proof -
  have eval: ?thesis
    by (simp add: world1_def new_DsDriver_eq world0_def serving_def forget_def train_foo_def
          kernel_def handler_defs reserved_def arg_def train_def exec_def emitAsync_def
          await_then_def return_js_def answering_def)
  show ?thesis
    using c8_train_relayed_unwrapped
            [of world1 0 "answering JNull" serving "''w''" "''a''" 0 kernel "[]"] eval
    by simp
qed

section \<open>Transport failure in the call primitive\<close>



section \<open>The module-level socket\<close>

text \<open>
  C10: the driver keeps its connection in one module-level variable, not in the
  instance. Constructing a second driver rebinds the variable to the new connection,
  and the methods of the first instance then work on that connection: \<^verbatim>\<open>exec\<close>,
  \<^verbatim>\<open>execCb\<close> and every typed method send on the second driver's socket, and
  \<^verbatim>\<open>disconnect()\<close> of the first instance closes the second driver's socket and
  leaves its own open.
\<close>

theorem c10_module_level_socket:
  assumes "new_DsDriver p1 w0 = Inr (d1, w1)" and "new_DsDriver p2 w1 = Inr (d2, w2)"
  shows "socket w1 = Some (length (sockets w0)) \<and>
         socket w2 = Some (Suc (length (sockets w0))) \<and>
         d2 = Suc d1 \<and>
         url (sockets w2 ! length (sockets w0)) = addr (drivers w2 ! d1) \<and>
         url (sockets w2 ! Suc (length (sockets w0))) = addr (drivers w2 ! d2) \<and>
         sent (snd (exec T fn args w2))
           = sent w2 @ [(Suc (length (sockets w0)), ''action'',
                         JObj [(''fn'', fn), (''args'', args)], None)] \<and>
         execCb fn args cb w2
           = Inr (w2\<lparr>sent := sent w2 @ [(Suc (length (sockets w0)), ''action'',
                                          JObj [(''fn'', fn), (''args'', args)], Some cb)]\<rparr>) \<and>
         map fst (new_sent w2 (snd (invoke T c w2)))
           = replicate (length (new_sent w2 (snd (invoke T c w2)))) (Suc (length (sockets w0))) \<and>
         (\<exists>w3. disconnect d1 w2 = Inr w3 \<and>
               closed (sockets w3 ! Suc (length (sockets w0))) \<and>
               \<not> closed (sockets w3 ! length (sockets w0)) \<and>
               \<not> connected (drivers w3 ! d1))"
proof -
  from assms(1) have d1: "d1 = length (drivers w0)" and s1: "socket w1 = Some (length (sockets w0))"
    and l1: "length (sockets w1) = Suc (length (sockets w0))"
    and dl1: "length (drivers w1) = Suc (length (drivers w0))"
    unfolding new_DsDriver_eq by auto
  from assms(2) have d2: "d2 = length (drivers w1)" and s2: "socket w2 = Some (length (sockets w1))"
    unfolding new_DsDriver_eq by auto
  have u1: "url (sockets w2 ! length (sockets w0)) = addr (drivers w2 ! d1)"
    using assms unfolding new_DsDriver_eq by (auto simp: nth_append)
  have u2: "url (sockets w2 ! Suc (length (sockets w0))) = addr (drivers w2 ! d2)"
    using assms unfolding new_DsDriver_eq by (auto simp: nth_append)
  have s2': "socket w2 = Some (Suc (length (sockets w0)))" using s2 l1 by simp
  have e: "sent (snd (exec T fn args w2))
           = sent w2 @ [(Suc (length (sockets w0)), ''action'',
                         JObj [(''fn'', fn), (''args'', args)], None)]"
    using s2' by (rule exec_sent)
  have ec: "execCb fn args cb w2
           = Inr (w2\<lparr>sent := sent w2 @ [(Suc (length (sockets w0)), ''action'',
                                          JObj [(''fn'', fn), (''args'', args)], Some cb)]\<rparr>)"
    using s2' by (simp add: execCb_def)
  have m: "map fst (new_sent w2 (snd (invoke T c w2)))
           = replicate (length (new_sent w2 (snd (invoke T c w2)))) (Suc (length (sockets w0)))"
  proof (cases "checks_name c \<longrightarrow> typeof (name_of c) = ''string''")
    case True
    from invoke_sends [OF True s2', of T]
    have "\<forall>x \<in> set (map fst (new_sent w2 (snd (invoke T c w2)))). x = Suc (length (sockets w0))"
      by auto
    then show ?thesis by (metis length_map replicate_eqI)
  next
    case False
    then show ?thesis using invoke_rejects_non_string [of c T w2] by (simp add: new_sent_def)
  qed
  have dc: "\<exists>w3. disconnect d1 w2 = Inr w3 \<and>
               closed (sockets w3 ! Suc (length (sockets w0))) \<and>
               \<not> closed (sockets w3 ! length (sockets w0)) \<and>
               \<not> connected (drivers w3 ! d1)"
    using assms unfolding new_DsDriver_eq
    by (auto simp: disconnect_def socket_close_def notify_def upd_driver_def nth_append Let_def)
  show ?thesis using s1 s2' d1 d2 dl1 u1 u2 e ec m dc by simp
qed

theorem c10_module_level_socket_witness:
  "new_DsDriver None world0 = Inr (0, world1) \<and>
   new_DsDriver (Some 6000) world1 = Inr (1, world2) \<and>
   socket world1 = Some 0 \<and> socket world2 = Some 1 \<and>
   url (sockets world2 ! 0) = ''http://localhost:5234'' \<and>
   addr (drivers world2 ! 0) = ''http://localhost:5234'' \<and>
   url (sockets world2 ! 1) = ''http://localhost:6000'' \<and>
   sent (snd (exec (answering JNull) (JStr ''reset'') JUndefined world2))
     = [(1, ''action'', JObj [(''fn'', JStr ''reset''), (''args'', JUndefined)], None)] \<and>
   map closed (sockets (case disconnect 0 world2 of Inr w3 \<Rightarrow> w3 | Inl e \<Rightarrow> world2))
     = [False, True]"
  using c10_module_level_socket
          [of None world0 0 world1 "Some 6000" 1 world2 "answering JNull" "JStr ''reset''" JUndefined
              JNull Reset]
  by (simp add: world1_def world2_def new_DsDriver_eq world0_def string_of_nat.simps
        exec_def emitAsync_def answering_def disconnect_def socket_close_def notify_def
        upd_driver_def)

end
